theory Spec2Isabelle
  imports Main "HOL-Library.Word"
begin

unbundle bit_operations_syntax

section \<open>Data model\<close>

text \<open>
  A byte buffer (\<^verbatim>\<open>[]byte\<close>) is a \<open>string\<close>; \<^verbatim>\<open>append(b, s...)\<close> is \<open>b @ s\<close>.
  A Go value of type \<^verbatim>\<open>interface{}\<close> (query arguments, the bound struct, the elements of
  the bound slice) is a \<open>gvalue\<close>.
\<close>

type_synonym bytes = string

datatype gvalue = VNil | VInt int | VStr string | VStruct "(string \<times> gvalue) list"

subsection \<open>Table metadata (package \<^verbatim>\<open>schema\<close>)\<close>

record Field =
  Name :: string
  SQLName :: string
  IsPK :: bool

record Table =
  TypeName :: string
  SQLName :: string
  Alias :: string
  Fields :: "Field list"
  PKs :: "Field list"
  DataFields :: "Field list"
  SoftDeleteField :: "Field option"

subsection \<open>Errors\<close>

text \<open>
  \<open>errorsNew m\<close> is \<^verbatim>\<open>errors.New(m)\<close>. The \<^verbatim>\<open>fmt.Errorf\<close> errors carry their arguments:
  \<open>ErrNoSoftDeleteField t\<close> is \<^verbatim>\<open>"%s does not have a soft delete field"\<close>,
  \<open>ErrCantFindColumn c\<close> is \<^verbatim>\<open>"bun: can't find column=%q"\<close>,
  \<open>ErrWherePKNotSupported k\<close> is \<^verbatim>\<open>"bun: WherePK does not support %T"\<close> with the name of the
  dynamic type. \<open>ErrNoPKs t\<close> is the error of \<^verbatim>\<open>Table.CheckPKs\<close>. \<open>ErrExternal m\<close> is an error
  returned by a function of another package (\<^verbatim>\<open>newSingleModel\<close>, \<^verbatim>\<open>QueryWithArgs.AppendQuery\<close>).
  \<open>PanicNilDeref\<close> is the run-time panic of a nil dereference: the call does not return.
\<close>

datatype error =
    errorsNew string
  | ErrNoSoftDeleteField Table
  | ErrCantFindColumn string
  | ErrWherePKNotSupported string
  | ErrNoPKs Table
  | ErrExternal string
  | PanicNilDeref

definition bindE :: "error + 'a \<Rightarrow> ('a \<Rightarrow> error + 'b) \<Rightarrow> error + 'b" where
  "bindE r f = (case r of Inl e \<Rightarrow> Inl e | Inr x \<Rightarrow> f x)"

subsection \<open>Clause fragments (package \<^verbatim>\<open>sqlfmt\<close>)\<close>

text \<open>\<open>Args = None\<close> is the nil slice, \<open>Args = Some []\<close> an empty slice that is not nil.\<close>

record QueryWithArgs =
  Query :: string
  Args :: "gvalue list option"

record QueryWithSep = QueryWithArgs +
  Sep :: string

text \<open>
  Modelled from the spec: the constructors of package \<^verbatim>\<open>sqlfmt\<close>, which is not among the
  sources. A clause fragment is \<^verbatim>\<open>{text, args (possibly empty/absent), separator}\<close>; an
  identifier fragment has its args absent; a fragment that was never set is the zero value.
\<close>

definition SafeQuery :: "string \<Rightarrow> gvalue list option \<Rightarrow> QueryWithArgs" where
  "SafeQuery query args = \<lparr>Query = query, Args = args\<rparr>"

definition UnsafeIdent :: "string \<Rightarrow> QueryWithArgs" where
  "UnsafeIdent ident = \<lparr>Query = ident, Args = None\<rparr>"

definition SafeQueryWithSep :: "string \<Rightarrow> gvalue list option \<Rightarrow> string \<Rightarrow> QueryWithSep" where
  "SafeQueryWithSep query args sep = \<lparr>Query = query, Args = args, Sep = sep\<rparr>"

definition IsZero :: "QueryWithArgs \<Rightarrow> bool" where
  "IsZero q = (Query q = [] \<and> Args q = None)"

subsection \<open>The formatter and the functions of other packages\<close>

text \<open>
  Modelled from the spec: the formatter is consumed through \<^verbatim>\<open>FormatQuery\<close> and
  \<^verbatim>\<open>isTemplateMode() -> bool\<close> (\<^verbatim>\<open>sqlfmt.IsNopFormatter\<close>), neither of which is among the
  sources.
\<close>

record QueryFormatter =
  FormatQuery :: "bytes \<Rightarrow> string \<Rightarrow> gvalue list \<Rightarrow> bytes"
  IsNop :: bool

definition IsNopFormatter :: "QueryFormatter \<Rightarrow> bool" where
  "IsNopFormatter fmter = IsNop fmter"

text \<open>
  Modelled from the spec: \<^verbatim>\<open>internal.Flag\<close>, a bitset, is not among the sources; the three
  flag constants are.
\<close>

type_synonym Flag = "64 word"

definition Has :: "Flag \<Rightarrow> Flag \<Rightarrow> bool" where
  "Has flag other = (flag AND other = other)"

definition Set_flag :: "Flag \<Rightarrow> Flag \<Rightarrow> Flag" where
  "Set_flag flag other = flag OR other"

definition Remove :: "Flag \<Rightarrow> Flag \<Rightarrow> Flag" where
  "Remove flag other = flag AND NOT other"

definition wherePKFlag :: Flag where
  "wherePKFlag = push_bit 0 1"

definition deletedFlag :: Flag where
  "deletedFlag = push_bit 1 1"

definition allWithDeletedFlag :: Flag where
  "allWithDeletedFlag = push_bit 2 1"

subsection \<open>Models\<close>

text \<open>
  A \<^verbatim>\<open>tableModel\<close> is a \<^verbatim>\<open>*structTableModel\<close> (a single entity, with its struct value), a
  \<^verbatim>\<open>*sliceTableModel\<close> (a collection, with its elements) or a table model of another kind, named
  by its dynamic type. A \<^verbatim>\<open>model\<close> is a table model or a model without a table.
\<close>

datatype tableModel =
    structTableModel Table gvalue
  | sliceTableModel Table "gvalue list"
  | otherTableModel string Table

datatype model = IsTableModel tableModel | NoTableModel string

fun Table_of :: "tableModel \<Rightarrow> Table" where
  "Table_of (structTableModel t v) = t"
| "Table_of (sliceTableModel t vs) = t"
| "Table_of (otherTableModel k t) = t"

text \<open>
  The functions of other packages that the builder calls, taken as parameters:
  \<^verbatim>\<open>QueryWithArgs.AppendQuery(fmter, b)\<close>, \<^verbatim>\<open>Field.AppendValue(fmter, b, v)\<close> and
  \<^verbatim>\<open>newSingleModel(db, modeli)\<close>. An error they return is its message.
\<close>

record extern =
  QueryAppendQuery :: "QueryWithArgs \<Rightarrow> QueryFormatter \<Rightarrow> bytes \<Rightarrow> string + bytes"
  AppendValue :: "Field \<Rightarrow> QueryFormatter \<Rightarrow> bytes \<Rightarrow> gvalue \<Rightarrow> bytes"
  newSingleModel :: "gvalue \<Rightarrow> string + model"

definition appendQ :: "extern \<Rightarrow> QueryWithArgs \<Rightarrow> QueryFormatter \<Rightarrow> bytes \<Rightarrow> error + bytes" where
  "appendQ X f fmter b =
     (case QueryAppendQuery X f fmter b of Inl m \<Rightarrow> Inl (ErrExternal m) | Inr b' \<Rightarrow> Inr b')"

section \<open>Base query state (\<^verbatim>\<open>query_base.go\<close>)\<close>

text \<open>
  \<open>columns = None\<close> is the nil slice (\<^verbatim>\<open>q.columns == nil\<close>). The other slices are only read
  through \<^verbatim>\<open>len\<close> and \<^verbatim>\<open>range\<close> and are lists. \<open>table = None\<close> and \<open>tableModel = None\<close> are
  nil. The fields \<^verbatim>\<open>db\<close> and \<^verbatim>\<open>dbi\<close> are used by \<^verbatim>\<open>scan\<close> and \<^verbatim>\<open>exec\<close> only.
\<close>

record withQuery =
  name :: string
  query :: "QueryFormatter \<Rightarrow> bytes \<Rightarrow> string + bytes"

record baseQuery =
  model :: "model option"
  err :: "error option"
  tableModel :: "tableModel option"
  table :: "Table option"
  withs :: "withQuery list"
  modelTable :: QueryWithArgs
  tables :: "QueryWithArgs list"
  columns :: "QueryWithArgs list option"
  flags :: Flag

definition setErr :: "'z baseQuery_scheme \<Rightarrow> error option \<Rightarrow> 'z baseQuery_scheme" where
  "setErr q e = (if err q = None then q\<lparr>err := e\<rparr> else q)"

definition setTableModel :: "extern \<Rightarrow> 'z baseQuery_scheme \<Rightarrow> gvalue \<Rightarrow> 'z baseQuery_scheme" where
  "setTableModel X q modeli =
     (case newSingleModel X modeli of
        Inl m \<Rightarrow> setErr q (Some (ErrExternal m))
      | Inr mdl \<Rightarrow>
          (let q = q\<lparr>model := Some mdl\<rparr> in
           case mdl of
             IsTableModel tm \<Rightarrow> q\<lparr>tableModel := Some tm, table := Some (Table_of tm)\<rparr>
           | NoTableModel k \<Rightarrow> q))"

definition checkSoftDelete :: "'z baseQuery_scheme \<Rightarrow> error option" where
  "checkSoftDelete q =
     (case table q of
        None \<Rightarrow> Some (errorsNew ''bun: can't use soft deletes without a table'')
      | Some t \<Rightarrow>
          if SoftDeleteField t = None then Some (ErrNoSoftDeleteField t)
          else if tableModel q = None
            then Some (errorsNew ''bun: can't use soft deletes without a table model'')
          else None)"

definition whereDeleted :: "'z baseQuery_scheme \<Rightarrow> 'z baseQuery_scheme" where
  "whereDeleted q =
     (case checkSoftDelete q of
        Some e \<Rightarrow> setErr q (Some e)
      | None \<Rightarrow>
          (let q = q\<lparr>flags := Set_flag (flags q) deletedFlag\<rparr>
           in q\<lparr>flags := Remove (flags q) allWithDeletedFlag\<rparr>))"

definition whereAllWithDeleted :: "'z baseQuery_scheme \<Rightarrow> 'z baseQuery_scheme" where
  "whereAllWithDeleted q =
     (case checkSoftDelete q of
        Some e \<Rightarrow> setErr q (Some e)
      | None \<Rightarrow>
          (let q = q\<lparr>flags := Set_flag (flags q) allWithDeletedFlag\<rparr>
           in q\<lparr>flags := Remove (flags q) deletedFlag\<rparr>))"

definition isSoftDelete :: "'z baseQuery_scheme \<Rightarrow> bool" where
  "isSoftDelete q =
     (case table q of
        Some t \<Rightarrow> SoftDeleteField t \<noteq> None \<and> \<not> Has (flags q) allWithDeletedFlag
      | None \<Rightarrow> False)"

definition addWith ::
  "'z baseQuery_scheme \<Rightarrow> string \<Rightarrow> (QueryFormatter \<Rightarrow> bytes \<Rightarrow> string + bytes) \<Rightarrow> 'z baseQuery_scheme"
where
  "addWith q nm qry = q\<lparr>withs := withs q @ [\<lparr>name = nm, query = qry\<rparr>]\<rparr>"

definition addTable :: "'z baseQuery_scheme \<Rightarrow> QueryWithArgs \<Rightarrow> 'z baseQuery_scheme" where
  "addTable q tbl = q\<lparr>tables := tables q @ [tbl]\<rparr>"

text \<open>\<^verbatim>\<open>append(s, x)\<close> on a slice that may be nil: the result is never nil.\<close>

definition append_slice :: "'a list option \<Rightarrow> 'a \<Rightarrow> 'a list option" where
  "append_slice s x = Some ((case s of None \<Rightarrow> [] | Some xs \<Rightarrow> xs) @ [x])"

definition addColumn :: "'z baseQuery_scheme \<Rightarrow> QueryWithArgs \<Rightarrow> 'z baseQuery_scheme" where
  "addColumn q column = q\<lparr>columns := append_slice (columns q) column\<rparr>"

text \<open>
  \<^verbatim>\<open>_excludeColumn\<close>: the loop returns at the first column with nil args and the given text,
  after removing it; \<open>remove_column\<close> is that loop on the list, \<open>None\<close> when it runs to
  the end.
\<close>

fun remove_column :: "string \<Rightarrow> QueryWithArgs list \<Rightarrow> QueryWithArgs list option" where
  "remove_column column [] = None"
| "remove_column column (col # cols) =
     (if Args col = None \<and> Query col = column then Some cols
      else map_option (\<lambda>r. col # r) (remove_column column cols))"

definition priv_excludeColumn :: "'z baseQuery_scheme \<Rightarrow> string \<Rightarrow> 'z baseQuery_scheme \<times> bool" where
  "priv_excludeColumn q column =
     (case columns q of
        None \<Rightarrow> (q, False)
      | Some cols \<Rightarrow>
          (case remove_column column cols of
             Some cols' \<Rightarrow> (q\<lparr>columns := Some cols'\<rparr>, True)
           | None \<Rightarrow> (q, False)))"

fun excludeColumn_loop :: "'z baseQuery_scheme \<Rightarrow> string list \<Rightarrow> 'z baseQuery_scheme" where
  "excludeColumn_loop q [] = q"
| "excludeColumn_loop q (column # cs) =
     (case priv_excludeColumn q column of
        (q', True) \<Rightarrow> excludeColumn_loop q' cs
      | (q', False) \<Rightarrow> setErr q' (Some (ErrCantFindColumn column)))"

definition excludeColumn :: "'z baseQuery_scheme \<Rightarrow> string list \<Rightarrow> error + 'z baseQuery_scheme" where
  "excludeColumn q cs =
     (if columns q = None then
        (case table q of
           None \<Rightarrow> Inl PanicNilDeref
         | Some t \<Rightarrow>
             Inr (excludeColumn_loop
                    (foldl (\<lambda>q f. q\<lparr>columns := append_slice (columns q) (UnsafeIdent (Name f))\<rparr>)
                       q (Fields t))
                    cs))
      else Inr (excludeColumn_loop q cs))"

text \<open>
  The loop \<^verbatim>\<open>for i, f := range fs { if i > 0 { b = append(b, ", "...) }; b, err = f.AppendQuery(fmter, b); ... }\<close>
  of \<^verbatim>\<open>baseQuery.appendColumns\<close>, \<^verbatim>\<open>appendReturning\<close> and \<^verbatim>\<open>CreateIndexQuery.AppendQuery\<close>,
  from index \<open>i\<close> on.
\<close>

fun append_queries_from ::
  "extern \<Rightarrow> QueryFormatter \<Rightarrow> nat \<Rightarrow> bytes \<Rightarrow> QueryWithArgs list \<Rightarrow> error + bytes"
where
  "append_queries_from X fmter i b [] = Inr b"
| "append_queries_from X fmter i b (f # fs) =
     (let b = (if i > 0 then b @ '', '' else b) in
      case appendQ X f fmter b of
        Inl e \<Rightarrow> Inl e
      | Inr b \<Rightarrow> append_queries_from X fmter (Suc i) b fs)"

definition priv_appendFirstTable ::
  "extern \<Rightarrow> QueryFormatter \<Rightarrow> 'z baseQuery_scheme \<Rightarrow> bytes \<Rightarrow> bool \<Rightarrow> error + bytes"
where
  "priv_appendFirstTable X fmter q b withAlias =
     (if \<not> IsZero (modelTable q) then appendQ X (modelTable q) fmter b
      else case table q of
        Some t \<Rightarrow>
          (let b = FormatQuery fmter b (Table.SQLName t) [] in
           if withAlias \<and> Alias t \<noteq> Table.SQLName t then Inr (b @ '' AS '' @ Alias t)
           else Inr b)
      | None \<Rightarrow>
          (case tables q of
             tbl # _ \<Rightarrow> appendQ X tbl fmter b
           | [] \<Rightarrow> Inl (errorsNew ''bun: query does not have a table'')))"

definition appendFirstTable ::
  "extern \<Rightarrow> QueryFormatter \<Rightarrow> 'z baseQuery_scheme \<Rightarrow> bytes \<Rightarrow> error + bytes"
where
  "appendFirstTable X fmter q b = priv_appendFirstTable X fmter q b False"

definition appendFirstTableWithAlias ::
  "extern \<Rightarrow> QueryFormatter \<Rightarrow> 'z baseQuery_scheme \<Rightarrow> bytes \<Rightarrow> error + bytes"
where
  "appendFirstTableWithAlias X fmter q b = priv_appendFirstTable X fmter q b True"

text \<open>The method \<^verbatim>\<open>baseQuery.appendColumns\<close>; a nil column slice has no element.\<close>

definition baseQuery_appendColumns ::
  "extern \<Rightarrow> QueryFormatter \<Rightarrow> 'z baseQuery_scheme \<Rightarrow> bytes \<Rightarrow> error + bytes"
where
  "baseQuery_appendColumns X fmter q b =
     append_queries_from X fmter 0 b (case columns q of None \<Rightarrow> [] | Some cols \<Rightarrow> cols)"

text \<open>The function \<^verbatim>\<open>appendColumns(b, table, fields)\<close>, its loop from index \<open>i\<close> on.\<close>

fun appendColumns_from :: "nat \<Rightarrow> bytes \<Rightarrow> string \<Rightarrow> Field list \<Rightarrow> bytes" where
  "appendColumns_from i b tbl [] = b"
| "appendColumns_from i b tbl (f # fs) =
     (let b = (if i > 0 then b @ '', '' else b);
          b = (if length tbl > 0 then b @ tbl @ ''.'' else b);
          b = b @ Field.SQLName f
      in appendColumns_from (Suc i) b tbl fs)"

definition appendColumns :: "bytes \<Rightarrow> string \<Rightarrow> Field list \<Rightarrow> bytes" where
  "appendColumns b tbl fs = appendColumns_from 0 b tbl fs"

definition AppendArg ::
  "QueryFormatter \<Rightarrow> 'z baseQuery_scheme \<Rightarrow> bytes \<Rightarrow> string \<Rightarrow> bytes \<times> bool"
where
  "AppendArg fmter q b nm =
     (case table q of
        None \<Rightarrow> (b, False)
      | Some t \<Rightarrow>
          if nm = ''TableName'' then (FormatQuery fmter b (Table.SQLName t) [], True)
          else if nm = ''TableAlias'' then (FormatQuery fmter b (Alias t) [], True)
          else if nm = ''PKs'' then (appendColumns b [] (PKs t), True)
          else if nm = ''TablePKs'' then (appendColumns b (Alias t) (PKs t), True)
          else if nm = ''Columns'' then (appendColumns b [] (Fields t), True)
          else if nm = ''TableColumns'' then (appendColumns b (Alias t) (Fields t), True)
          else (b, False))"

section \<open>The WHERE composer\<close>

record WhereQuery =
  wheres :: "QueryWithSep list"

definition addWhere :: "WhereQuery \<Rightarrow> QueryWithSep \<Rightarrow> WhereQuery" where
  "addWhere q w = q\<lparr>wheres := wheres q @ [w]\<rparr>"

definition Where :: "WhereQuery \<Rightarrow> string \<Rightarrow> gvalue list option \<Rightarrow> WhereQuery" where
  "Where q qry args = addWhere q (SafeQueryWithSep qry args '' AND '')"

definition WhereOr :: "WhereQuery \<Rightarrow> string \<Rightarrow> gvalue list option \<Rightarrow> WhereQuery" where
  "WhereOr q qry args = addWhere q (SafeQueryWithSep qry args '' OR '')"

text \<open>
  \<^verbatim>\<open>fn\<close> mutates the fresh \<^verbatim>\<open>WhereQuery\<close> it is given: it is a function from that state to the
  state it leaves. \<^verbatim>\<open>new(WhereQuery)\<close> has no predicate.
\<close>

definition addWhereGroup :: "WhereQuery \<Rightarrow> string \<Rightarrow> (WhereQuery \<Rightarrow> WhereQuery) \<Rightarrow> WhereQuery" where
  "addWhereGroup q sep fn =
     (let q2 = fn \<lparr>wheres = []\<rparr> in
      if length (wheres q2) > 0 then
        (let q2 = q2\<lparr>wheres := (wheres q2)[0 := (wheres q2 ! 0)\<lparr>Sep := []\<rparr>]\<rparr>;
             q = addWhere q (SafeQueryWithSep [] None (sep @ ''(''));
             q = q\<lparr>wheres := wheres q @ wheres q2\<rparr>;
             q = addWhere q (SafeQueryWithSep [] None '')'')
         in q)
      else q)"

definition WhereGroup :: "WhereQuery \<Rightarrow> string \<Rightarrow> (WhereQuery \<Rightarrow> WhereQuery) \<Rightarrow> WhereQuery" where
  "WhereGroup q sep fn = addWhereGroup q sep fn"

record whereBaseQuery = baseQuery +
  whereQuery :: WhereQuery

text \<open>
  \<^verbatim>\<open>_appendWhere\<close>: the body of its loop for the fragment at index \<open>i\<close> (\<^verbatim>\<open>continue\<close> returns the
  buffer, \<^verbatim>\<open>return nil, err\<close> the error), and the loop from index \<open>i\<close> on.
\<close>

definition appendWhere_body ::
  "extern \<Rightarrow> QueryFormatter \<Rightarrow> nat \<Rightarrow> bytes \<Rightarrow> QueryWithSep \<Rightarrow> error + bytes"
where
  "appendWhere_body X fmter i b w =
     (let b = (if i > 0 then b @ Sep w else b) in
      if Query w = [] \<and> Args w = None then Inr b
      else
        (let b = b @ ''('' in
         case appendQ X (QueryWithArgs.truncate w) fmter b of
           Inl e \<Rightarrow> Inl e
         | Inr b \<Rightarrow> Inr (b @ '')'')))"

fun appendWhere_from ::
  "extern \<Rightarrow> QueryFormatter \<Rightarrow> nat \<Rightarrow> bytes \<Rightarrow> QueryWithSep list \<Rightarrow> error + bytes"
where
  "appendWhere_from X fmter i b [] = Inr b"
| "appendWhere_from X fmter i b (w # ws) =
     (case appendWhere_body X fmter i b w of
        Inl e \<Rightarrow> Inl e
      | Inr b \<Rightarrow> appendWhere_from X fmter (Suc i) b ws)"

definition priv_appendWhere ::
  "extern \<Rightarrow> QueryFormatter \<Rightarrow> bytes \<Rightarrow> QueryWithSep list \<Rightarrow> error + bytes"
where
  "priv_appendWhere X fmter b ws = appendWhere_from X fmter 0 b ws"

definition appendWhereSoftDelete :: "'z whereBaseQuery_scheme \<Rightarrow> bytes \<Rightarrow> error + bytes" where
  "appendWhereSoftDelete q b =
     (let b = b @ ''.'' in
      case tableModel q of
        None \<Rightarrow> Inl PanicNilDeref
      | Some tm \<Rightarrow>
          (case SoftDeleteField (Table_of tm) of
             None \<Rightarrow> Inl PanicNilDeref
           | Some f \<Rightarrow>
               (let b = b @ Field.SQLName f in
                if Has (flags q) deletedFlag then Inr (b @ '' IS NOT NULL'')
                else Inr (b @ '' IS NULL''))))"

text \<open>
  Modelled from the spec: \<^verbatim>\<open>Table.CheckPKs\<close> is not among the sources; it "validates the table
  declares at least one PK field (else error)".
\<close>

definition CheckPKs :: "Table \<Rightarrow> error option" where
  "CheckPKs t = (if length (PKs t) = 0 then Some (ErrNoPKs t) else None)"

fun appendWherePKStruct_from ::
  "extern \<Rightarrow> QueryFormatter \<Rightarrow> bool \<Rightarrow> Table \<Rightarrow> gvalue \<Rightarrow> nat \<Rightarrow> bytes \<Rightarrow> Field list \<Rightarrow> bytes"
where
  "appendWherePKStruct_from X fmter isTemplate t strct i b [] = b"
| "appendWherePKStruct_from X fmter isTemplate t strct i b (f # fs) =
     (let b = (if i > 0 then b @ '' AND '' else b);
          b = b @ Alias t;
          b = b @ ''.'';
          b = b @ Field.SQLName f;
          b = b @ '' = '';
          b = (if isTemplate then b @ ''?'' else AppendValue X f fmter b strct)
      in appendWherePKStruct_from X fmter isTemplate t strct (Suc i) b fs)"

definition appendWherePKStruct ::
  "extern \<Rightarrow> QueryFormatter \<Rightarrow> 'z whereBaseQuery_scheme \<Rightarrow> bytes \<Rightarrow> gvalue \<Rightarrow> error + bytes"
where
  "appendWherePKStruct X fmter q b strct =
     (let isTemplate = IsNopFormatter fmter;
          b = b @ ''(''
      in case table q of
           None \<Rightarrow> Inl PanicNilDeref
         | Some t \<Rightarrow>
             Inr (appendWherePKStruct_from X fmter isTemplate t strct 0 b (PKs t) @ '')''))"

text \<open>The inner loop of \<^verbatim>\<open>appendWherePKSlice\<close>, over the primary keys of one element.\<close>

fun slice_values_from ::
  "extern \<Rightarrow> QueryFormatter \<Rightarrow> bool \<Rightarrow> gvalue \<Rightarrow> nat \<Rightarrow> bytes \<Rightarrow> Field list \<Rightarrow> bytes"
where
  "slice_values_from X fmter isTemplate el i b [] = b"
| "slice_values_from X fmter isTemplate el i b (f # fs) =
     (let b = (if i > 0 then b @ '', '' else b);
          b = (if isTemplate then b @ ''?'' else AppendValue X f fmter b el)
      in slice_values_from X fmter isTemplate el (Suc i) b fs)"

text \<open>The outer loop, over the elements; in template mode it breaks at the second one.\<close>

fun slice_rows_from ::
  "extern \<Rightarrow> QueryFormatter \<Rightarrow> bool \<Rightarrow> Field list \<Rightarrow> nat \<Rightarrow> bytes \<Rightarrow> gvalue list \<Rightarrow> bytes"
where
  "slice_rows_from X fmter isTemplate pks i b [] = b"
| "slice_rows_from X fmter isTemplate pks i b (el # els) =
     (if i > 0 \<and> isTemplate then b
      else
        (let b = (if i > 0 then b @ '', '' else b);
             b = (if length pks > 1 then b @ ''('' else b);
             b = slice_values_from X fmter isTemplate el 0 b pks;
             b = (if length pks > 1 then b @ '')'' else b)
         in slice_rows_from X fmter isTemplate pks (Suc i) b els))"

definition appendWherePKSlice ::
  "extern \<Rightarrow> QueryFormatter \<Rightarrow> 'z whereBaseQuery_scheme \<Rightarrow> bytes \<Rightarrow> gvalue list \<Rightarrow> error + bytes"
where
  "appendWherePKSlice X fmter q b els =
     (case table q of
        None \<Rightarrow> Inl PanicNilDeref
      | Some t \<Rightarrow>
          (let b = (if length (PKs t) > 1 then b @ ''('' else b);
               b = appendColumns b (Alias t) (PKs t);
               b = (if length (PKs t) > 1 then b @ '')'' else b);
               b = b @ '' IN ('';
               isTemplate = IsNopFormatter fmter;
               b = slice_rows_from X fmter isTemplate (PKs t) 0 b els;
               b = b @ '')''
           in Inr b))"

definition appendWherePK ::
  "extern \<Rightarrow> QueryFormatter \<Rightarrow> 'z whereBaseQuery_scheme \<Rightarrow> bytes \<Rightarrow> error + bytes"
where
  "appendWherePK X fmter q b =
     (case table q of
        None \<Rightarrow> Inl PanicNilDeref
      | Some t \<Rightarrow>
          (case CheckPKs t of
             Some e \<Rightarrow> Inl e
           | None \<Rightarrow>
               (case tableModel q of
                  Some (structTableModel t' strct) \<Rightarrow> appendWherePKStruct X fmter q b strct
                | Some (sliceTableModel t' els) \<Rightarrow> appendWherePKSlice X fmter q b els
                | Some (otherTableModel k t') \<Rightarrow> Inl (ErrWherePKNotSupported k)
                | None \<Rightarrow> Inl (ErrWherePKNotSupported ''<nil>''))))"

definition appendWhere ::
  "extern \<Rightarrow> QueryFormatter \<Rightarrow> 'z whereBaseQuery_scheme \<Rightarrow> bytes \<Rightarrow> error + bytes"
where
  "appendWhere X fmter q b =
     (if length (wheres (whereQuery q)) = 0 \<and> \<not> isSoftDelete q \<and> \<not> Has (flags q) wherePKFlag
      then Inr b
      else
        (let b = b @ '' WHERE '';
             startLen = length b
         in
         bindE (if length (wheres (whereQuery q)) > 0
                then priv_appendWhere X fmter b (wheres (whereQuery q)) else Inr b)
           (\<lambda>b.
         bindE (if isSoftDelete q then
                  (let b = (if length b > startLen then b @ '' AND '' else b) in
                   case tableModel q of
                     None \<Rightarrow> Inl PanicNilDeref
                   | Some tm \<Rightarrow> appendWhereSoftDelete q (b @ Alias (Table_of tm)))
                else Inr b)
           (\<lambda>b.
         if Has (flags q) wherePKFlag then
           (let b = (if length b > startLen then b @ '' AND '' else b) in
            appendWherePK X fmter q b)
         else Inr b))))"

definition mustAppendWhere ::
  "extern \<Rightarrow> QueryFormatter \<Rightarrow> 'z whereBaseQuery_scheme \<Rightarrow> bytes \<Rightarrow> error + bytes"
where
  "mustAppendWhere X fmter q b =
     (if length (wheres (whereQuery q)) = 0 \<and> \<not> Has (flags q) wherePKFlag then
        Inl (errorsNew ''bun: Update and Delete queries require Where clause (try WherePK)'')
      else appendWhere X fmter q b)"

section \<open>The RETURNING composer\<close>

text \<open>
  The composer holds \<^verbatim>\<open>*schema.Field\<close> pointers and \<^verbatim>\<open>addReturningField\<close> compares them with
  \<^verbatim>\<open>==\<close>: a pointer is its address together with the field it points to, and two pointers are
  equal when their addresses are.
\<close>

type_synonym FieldPtr = "nat \<times> Field"

record returningQuery =
  returning :: "QueryWithArgs list"
  returningFields :: "FieldPtr list"


definition addReturningField :: "returningQuery \<Rightarrow> FieldPtr \<Rightarrow> returningQuery" where
  "addReturningField q field =
     (if length (returning q) > 0 then q
      else if \<exists>f \<in> set (returningFields q). fst f = fst field then q
      else q\<lparr>returningFields := returningFields q @ [field]\<rparr>)"



section \<open>The CREATE INDEX statement\<close>

record CreateIndexQuery = whereBaseQuery +
  unique :: bool
  fulltext :: bool
  spatial :: bool
  concurrently :: bool
  ifNotExists :: bool
  index :: QueryWithArgs
  usingq :: QueryWithArgs
  includeq :: "QueryWithArgs list"

definition NewCreateIndexQuery :: CreateIndexQuery where
  "NewCreateIndexQuery =
     \<lparr>model = None, err = None, tableModel = None, table = None, withs = [],
      modelTable = \<lparr>Query = [], Args = None\<rparr>, tables = [], columns = None, flags = 0,
      whereQuery = \<lparr>wheres = []\<rparr>,
      unique = False, fulltext = False, spatial = False, concurrently = False,
      ifNotExists = False, index = \<lparr>Query = [], Args = None\<rparr>,
      usingq = \<lparr>Query = [], Args = None\<rparr>, includeq = []\<rparr>"

definition CreateIndex_Model :: "extern \<Rightarrow> CreateIndexQuery \<Rightarrow> gvalue \<Rightarrow> CreateIndexQuery" where
  "CreateIndex_Model X q modeli = setTableModel X q modeli"

definition CreateIndex_Unique :: "CreateIndexQuery \<Rightarrow> CreateIndexQuery" where
  "CreateIndex_Unique q = q\<lparr>unique := True\<rparr>"

definition CreateIndex_Concurrently :: "CreateIndexQuery \<Rightarrow> CreateIndexQuery" where
  "CreateIndex_Concurrently q = q\<lparr>concurrently := True\<rparr>"

definition CreateIndex_IfNotExists :: "CreateIndexQuery \<Rightarrow> CreateIndexQuery" where
  "CreateIndex_IfNotExists q = q\<lparr>ifNotExists := True\<rparr>"

definition CreateIndex_Index ::
  "CreateIndexQuery \<Rightarrow> string \<Rightarrow> gvalue list option \<Rightarrow> CreateIndexQuery"
where
  "CreateIndex_Index q qry args = q\<lparr>index := SafeQuery qry args\<rparr>"

definition CreateIndex_Table :: "CreateIndexQuery \<Rightarrow> string list \<Rightarrow> CreateIndexQuery" where
  "CreateIndex_Table q tbls = foldl (\<lambda>q tbl. addTable q (UnsafeIdent tbl)) q tbls"

definition CreateIndex_TableExpr ::
  "CreateIndexQuery \<Rightarrow> string \<Rightarrow> gvalue list option \<Rightarrow> CreateIndexQuery"
where
  "CreateIndex_TableExpr q qry args = addTable q (SafeQuery qry args)"

definition CreateIndex_ModelTableExpr ::
  "CreateIndexQuery \<Rightarrow> string \<Rightarrow> gvalue list option \<Rightarrow> CreateIndexQuery"
where
  "CreateIndex_ModelTableExpr q qry args = q\<lparr>modelTable := SafeQuery qry args\<rparr>"

definition CreateIndex_Using ::
  "CreateIndexQuery \<Rightarrow> string \<Rightarrow> gvalue list option \<Rightarrow> CreateIndexQuery"
where
  "CreateIndex_Using q qry args = q\<lparr>usingq := SafeQuery qry args\<rparr>"

definition CreateIndex_Column :: "CreateIndexQuery \<Rightarrow> string list \<Rightarrow> CreateIndexQuery" where
  "CreateIndex_Column q cs = foldl (\<lambda>q column. addColumn q (UnsafeIdent column)) q cs"

definition CreateIndex_ColumnExpr ::
  "CreateIndexQuery \<Rightarrow> string \<Rightarrow> gvalue list option \<Rightarrow> CreateIndexQuery"
where
  "CreateIndex_ColumnExpr q qry args = addColumn q (SafeQuery qry args)"

definition CreateIndex_ExcludeColumn ::
  "CreateIndexQuery \<Rightarrow> string list \<Rightarrow> error + CreateIndexQuery"
where
  "CreateIndex_ExcludeColumn q cs = excludeColumn q cs"

definition CreateIndex_Include :: "CreateIndexQuery \<Rightarrow> string list \<Rightarrow> CreateIndexQuery" where
  "CreateIndex_Include q cs =
     foldl (\<lambda>q column. q\<lparr>includeq := includeq q @ [UnsafeIdent column]\<rparr>) q cs"

definition CreateIndex_IncludeExpr ::
  "CreateIndexQuery \<Rightarrow> string \<Rightarrow> gvalue list option \<Rightarrow> CreateIndexQuery"
where
  "CreateIndex_IncludeExpr q qry args = q\<lparr>includeq := includeq q @ [SafeQuery qry args]\<rparr>"

definition CreateIndex_Where ::
  "CreateIndexQuery \<Rightarrow> string \<Rightarrow> gvalue list option \<Rightarrow> CreateIndexQuery"
where
  "CreateIndex_Where q qry args =
     q\<lparr>whereQuery := addWhere (whereQuery q) (SafeQueryWithSep qry args '' AND '')\<rparr>"

definition CreateIndex_WhereOr ::
  "CreateIndexQuery \<Rightarrow> string \<Rightarrow> gvalue list option \<Rightarrow> CreateIndexQuery"
where
  "CreateIndex_WhereOr q qry args =
     q\<lparr>whereQuery := addWhere (whereQuery q) (SafeQueryWithSep qry args '' OR '')\<rparr>"

definition CreateIndex_WhereGroup ::
  "CreateIndexQuery \<Rightarrow> string \<Rightarrow> (WhereQuery \<Rightarrow> WhereQuery) \<Rightarrow> CreateIndexQuery"
where
  "CreateIndex_WhereGroup q sep fn = q\<lparr>whereQuery := addWhereGroup (whereQuery q) sep fn\<rparr>"

definition CreateIndex_AppendQuery ::
  "extern \<Rightarrow> QueryFormatter \<Rightarrow> CreateIndexQuery \<Rightarrow> bytes \<Rightarrow> error + bytes"
where
  "CreateIndex_AppendQuery X fmter q b =
     (case err q of
        Some e \<Rightarrow> Inl e
      | None \<Rightarrow>
         (let b = b @ ''CREATE '';
              b = (if unique q then b @ ''UNIQUE '' else b);
              b = (if fulltext q then b @ ''FULLTEXT '' else b);
              b = (if spatial q then b @ ''SPATIAL '' else b);
              b = b @ ''INDEX '';
              b = (if concurrently q then b @ ''CONCURRENTLY '' else b);
              b = (if ifNotExists q then b @ ''IF NOT EXISTS '' else b)
          in
          bindE (appendQ X (index q) fmter b) (\<lambda>b.
          bindE (appendFirstTable X fmter q (b @ '' ON '')) (\<lambda>b.
          bindE (if \<not> IsZero (usingq q) then appendQ X (usingq q) fmter (b @ '' USING '')
                 else Inr b) (\<lambda>b.
          bindE (append_queries_from X fmter 0 (b @ '' ('')
                   (case columns q of None \<Rightarrow> [] | Some cols \<Rightarrow> cols)) (\<lambda>b.
          let b = b @ '')'' in
          bindE (if length (includeq q) > 0 then
                   bindE (append_queries_from X fmter 0 (b @ '' INCLUDE ('') (includeq q))
                     (\<lambda>b. Inr (b @ '')''))
                 else Inr b) (\<lambda>b.
          appendWhere X fmter q b)))))))"

subsection \<open>Sequences of builder calls\<close>

text \<open>
  The mutators of a \<^verbatim>\<open>CreateIndexQuery\<close>: its exported methods and those of the embedded
  \<^verbatim>\<open>baseQuery\<close>. A call that panics leaves no state.
\<close>

datatype call =
    Call_Model gvalue
  | Call_Unique
  | Call_Concurrently
  | Call_IfNotExists
  | Call_Index string "gvalue list option"
  | Call_Table "string list"
  | Call_TableExpr string "gvalue list option"
  | Call_ModelTableExpr string "gvalue list option"
  | Call_Using string "gvalue list option"
  | Call_Column "string list"
  | Call_ColumnExpr string "gvalue list option"
  | Call_ExcludeColumn "string list"
  | Call_Include "string list"
  | Call_IncludeExpr string "gvalue list option"
  | Call_Where string "gvalue list option"
  | Call_WhereOr string "gvalue list option"
  | Call_WhereGroup string "WhereQuery \<Rightarrow> WhereQuery"
  | Call_setErr "error option"
  | Call_whereDeleted
  | Call_whereAllWithDeleted
  | Call_addWith string "QueryFormatter \<Rightarrow> bytes \<Rightarrow> string + bytes"

fun apply_call :: "extern \<Rightarrow> CreateIndexQuery \<Rightarrow> call \<Rightarrow> error + CreateIndexQuery" where
  "apply_call X q (Call_Model modeli) = Inr (CreateIndex_Model X q modeli)"
| "apply_call X q Call_Unique = Inr (CreateIndex_Unique q)"
| "apply_call X q Call_Concurrently = Inr (CreateIndex_Concurrently q)"
| "apply_call X q Call_IfNotExists = Inr (CreateIndex_IfNotExists q)"
| "apply_call X q (Call_Index qry args) = Inr (CreateIndex_Index q qry args)"
| "apply_call X q (Call_Table tbls) = Inr (CreateIndex_Table q tbls)"
| "apply_call X q (Call_TableExpr qry args) = Inr (CreateIndex_TableExpr q qry args)"
| "apply_call X q (Call_ModelTableExpr qry args) = Inr (CreateIndex_ModelTableExpr q qry args)"
| "apply_call X q (Call_Using qry args) = Inr (CreateIndex_Using q qry args)"
| "apply_call X q (Call_Column cs) = Inr (CreateIndex_Column q cs)"
| "apply_call X q (Call_ColumnExpr qry args) = Inr (CreateIndex_ColumnExpr q qry args)"
| "apply_call X q (Call_ExcludeColumn cs) = CreateIndex_ExcludeColumn q cs"
| "apply_call X q (Call_Include cs) = Inr (CreateIndex_Include q cs)"
| "apply_call X q (Call_IncludeExpr qry args) = Inr (CreateIndex_IncludeExpr q qry args)"
| "apply_call X q (Call_Where qry args) = Inr (CreateIndex_Where q qry args)"
| "apply_call X q (Call_WhereOr qry args) = Inr (CreateIndex_WhereOr q qry args)"
| "apply_call X q (Call_WhereGroup sep fn) = Inr (CreateIndex_WhereGroup q sep fn)"
| "apply_call X q (Call_setErr e) = Inr (setErr q e)"
| "apply_call X q Call_whereDeleted = Inr (whereDeleted q)"
| "apply_call X q Call_whereAllWithDeleted = Inr (whereAllWithDeleted q)"
| "apply_call X q (Call_addWith nm qry) = Inr (addWith q nm qry)"

fun run_calls :: "extern \<Rightarrow> CreateIndexQuery \<Rightarrow> call list \<Rightarrow> error + CreateIndexQuery" where
  "run_calls X q [] = Inr q"
| "run_calls X q (c # cs) =
     (case apply_call X q c of Inl e \<Rightarrow> Inl e | Inr q' \<Rightarrow> run_calls X q' cs)"

subsection \<open>Invariants of the builder state\<close>

text \<open>
  \<^verbatim>\<open>setTableModel\<close> is the only place that writes \<^verbatim>\<open>q.table\<close> and \<^verbatim>\<open>q.tableModel\<close>, and it
  writes them together: the table is the table of the table model.
\<close>

definition table_bound :: "'z baseQuery_scheme \<Rightarrow> bool" where
  "table_bound q = (table q = map_option Table_of (tableModel q))"

text \<open>The two soft-delete flags are not both set.\<close>

definition flags_exclusive :: "'z baseQuery_scheme \<Rightarrow> bool" where
  "flags_exclusive q = (\<not> (Has (flags q) deletedFlag \<and> Has (flags q) allWithDeletedFlag))"

section \<open>A concrete formatter, concrete package functions and tables\<close>

text \<open>
  Instances of the parameters, to evaluate the definitions at concrete inputs: a formatter
  that copies the query text, fragments that render as their text, and values that render as
  SQL literals (a decimal number, a string in single quotes).
\<close>

fun show_nat :: "nat \<Rightarrow> string" where
  "show_nat n =
     (if n < 10 then [''0123456789'' ! n] else show_nat (n div 10) @ [''0123456789'' ! (n mod 10)])"

declare show_nat.simps [simp del]

definition show_int :: "int \<Rightarrow> string" where
  "show_int i = (if i < 0 then ''-'' @ show_nat (nat (- i)) else show_nat (nat i))"

definition sample_fmter :: "bool \<Rightarrow> QueryFormatter" where
  "sample_fmter nop = \<lparr>FormatQuery = (\<lambda>b qry args. b @ qry), IsNop = nop\<rparr>"

fun sample_literal :: "gvalue option \<Rightarrow> string" where
  "sample_literal (Some (VInt i)) = show_int i"
| "sample_literal (Some (VStr s)) = [CHR 0x27] @ s @ [CHR 0x27]"
| "sample_literal _ = ''NULL''"

fun sample_AppendValue :: "Field \<Rightarrow> QueryFormatter \<Rightarrow> bytes \<Rightarrow> gvalue \<Rightarrow> bytes" where
  "sample_AppendValue f fmter b (VStruct kvs) = b @ sample_literal (map_of kvs (Name f))"
| "sample_AppendValue f fmter b v = b @ ''NULL''"

definition id_field :: Field where
  "id_field = \<lparr>Name = ''id'', SQLName = ''id'', IsPK = True\<rparr>"

definition tenant_field :: Field where
  "tenant_field = \<lparr>Name = ''tenant'', SQLName = ''tenant'', IsPK = True\<rparr>"

definition title_field :: Field where
  "title_field = \<lparr>Name = ''title'', SQLName = ''title'', IsPK = False\<rparr>"

definition deleted_at_field :: Field where
  "deleted_at_field = \<lparr>Name = ''deleted_at'', SQLName = ''deleted_at'', IsPK = False\<rparr>"

text \<open>A table with the primary key \<open>(id, tenant)\<close>, the alias \<open>t\<close> and a soft-delete field.\<close>

definition docs_table :: Table where
  "docs_table =
     \<lparr>TypeName = ''Doc'', SQLName = ''docs'', Alias = ''t'',
      Fields = [id_field, tenant_field, title_field, deleted_at_field],
      PKs = [id_field, tenant_field],
      DataFields = [title_field, deleted_at_field],
      SoftDeleteField = Some deleted_at_field\<rparr>"

text \<open>A table with the primary key \<open>id\<close>, the alias \<open>t\<close> and no soft-delete field.\<close>

definition items_table :: Table where
  "items_table =
     \<lparr>TypeName = ''Item'', SQLName = ''items'', Alias = ''t'',
      Fields = [id_field, title_field],
      PKs = [id_field],
      DataFields = [title_field],
      SoftDeleteField = None\<rparr>"

fun sample_newSingleModel :: "gvalue \<Rightarrow> string + model" where
  "sample_newSingleModel (VStruct kvs) = Inr (IsTableModel (structTableModel docs_table (VStruct kvs)))"
| "sample_newSingleModel VNil = Inl ''bun: Model(nil)''"
| "sample_newSingleModel v = Inr (NoTableModel ''*bun.scanModel'')"

definition sample_extern :: extern where
  "sample_extern =
     \<lparr>QueryAppendQuery =
        (\<lambda>f fmter b. Inr (case Args f of None \<Rightarrow> b @ Query f
                                    | Some args \<Rightarrow> FormatQuery fmter b (Query f) args)),
      AppendValue = sample_AppendValue,
      newSingleModel = sample_newSingleModel\<rparr>"

text \<open>A struct with the key \<open>(5, acme)\<close> and a collection with the keys \<open>1\<close>, \<open>2\<close>, \<open>3\<close>.\<close>

definition acme_doc :: gvalue where
  "acme_doc = VStruct [(''id'', VInt 5), (''tenant'', VStr ''acme'')]"

definition three_items :: "gvalue list" where
  "three_items = [VStruct [(''id'', VInt 1)], VStruct [(''id'', VInt 2)], VStruct [(''id'', VInt 3)]]"

section \<open>The sticky first error\<close>

lemma setErr_sticky: "err q = Some e \<Longrightarrow> err (setErr q e') = Some e"
  by (simp add: setErr_def)

lemma err_priv_excludeColumn: "err (fst (priv_excludeColumn q c)) = err q"
  by (simp add: priv_excludeColumn_def split: option.splits)

lemma err_excludeColumn_loop:
  "err q = Some e \<Longrightarrow> err (excludeColumn_loop q cs) = Some e"
proof (induction cs arbitrary: q)
  case Nil
  then show ?case by simp
next
  case (Cons c cs)
  obtain q' found where pe: "priv_excludeColumn q c = (q', found)"
    by (cases "priv_excludeColumn q c")
  have "err q' = Some e"
    using err_priv_excludeColumn [of q c] pe Cons.prems by simp
  then show ?case
    using pe Cons.IH [of q'] by (cases found) (simp_all add: setErr_sticky)
qed

lemma err_materialize:
  "err (foldl (\<lambda>q f. q\<lparr>columns := append_slice (columns q) (UnsafeIdent (Name f))\<rparr>) q fs) = err q"
  by (induction fs arbitrary: q) simp_all

lemma err_excludeColumn:
  "err q = Some e \<Longrightarrow> (case excludeColumn q cs of Inl x \<Rightarrow> True | Inr q' \<Rightarrow> err q' = Some e)"
  unfolding excludeColumn_def
  by (simp add: err_excludeColumn_loop err_materialize split: option.splits)

lemma err_addTable: "err (addTable q tbl) = err q"
  by (simp add: addTable_def)

lemma err_addColumn: "err (addColumn q c) = err q"
  by (simp add: addColumn_def)

lemma err_addWith: "err (addWith q nm qry) = err q"
  by (simp add: addWith_def)

lemma err_CreateIndex_Table: "err (CreateIndex_Table q ts) = err q"
  unfolding CreateIndex_Table_def
  by (induction ts arbitrary: q) (simp_all add: err_addTable)

lemma err_CreateIndex_Column: "err (CreateIndex_Column q cs) = err q"
  unfolding CreateIndex_Column_def
  by (induction cs arbitrary: q) (simp_all add: err_addColumn)

lemma err_CreateIndex_Include: "err (CreateIndex_Include q cs) = err q"
  unfolding CreateIndex_Include_def
  by (induction cs arbitrary: q) simp_all

lemma err_setTableModel: "err q = Some e \<Longrightarrow> err (setTableModel X q m) = Some e"
  by (simp add: setTableModel_def setErr_def Let_def split: sum.splits model.splits)

lemma err_whereDeleted: "err q = Some e \<Longrightarrow> err (whereDeleted q) = Some e"
  by (simp add: whereDeleted_def setErr_def Let_def split: option.splits)

lemma err_whereAllWithDeleted: "err q = Some e \<Longrightarrow> err (whereAllWithDeleted q) = Some e"
  by (simp add: whereAllWithDeleted_def setErr_def Let_def split: option.splits)

lemma apply_call_sticky_case:
  "err q = Some e \<Longrightarrow> (case apply_call X q c of Inl x \<Rightarrow> True | Inr q' \<Rightarrow> err q' = Some e)"
proof (cases c)
  case (Call_ExcludeColumn cs)
  assume "err q = Some e"
  then show ?thesis using Call_ExcludeColumn err_excludeColumn [of q e cs]
    by (simp add: CreateIndex_ExcludeColumn_def)
qed (simp_all add: CreateIndex_Model_def CreateIndex_Unique_def CreateIndex_Concurrently_def
      CreateIndex_IfNotExists_def CreateIndex_Index_def CreateIndex_TableExpr_def
      CreateIndex_ModelTableExpr_def CreateIndex_Using_def CreateIndex_ColumnExpr_def
      CreateIndex_IncludeExpr_def CreateIndex_Where_def CreateIndex_WhereOr_def
      CreateIndex_WhereGroup_def err_addTable err_addColumn err_addWith
      err_CreateIndex_Table err_CreateIndex_Column err_CreateIndex_Include err_setTableModel
      err_whereDeleted err_whereAllWithDeleted setErr_sticky)

lemma apply_call_sticky:
  "err q = Some e \<Longrightarrow> apply_call X q c = Inr q' \<Longrightarrow> err q' = Some e"
  using apply_call_sticky_case [of q e X c] by simp

lemma run_calls_sticky:
  "err q = Some e \<Longrightarrow> run_calls X q cs = Inr q' \<Longrightarrow> err q' = Some e"
proof (induction cs arbitrary: q)
  case Nil
  then show ?case by simp
next
  case (Cons c cs)
  then show ?case
    by (auto split: sum.splits dest: apply_call_sticky)
qed

text \<open>
  C1. Once an error is recorded, no later \<^verbatim>\<open>setErr\<close> overwrites it, whatever its argument; it
  is still the recorded error after any sequence of mutator calls that returns; and
  \<^verbatim>\<open>AppendQuery\<close> on such a state returns exactly that error and no buffer.
\<close>

theorem sticky_first_error:
  "err q = Some e \<Longrightarrow>
     err (setErr q e') = Some e \<and>
     (run_calls X q cs = Inr q' \<longrightarrow>
        err q' = Some e \<and> CreateIndex_AppendQuery X fmter q' b = Inl e)"
  by (auto simp: setErr_sticky CreateIndex_AppendQuery_def dest: run_calls_sticky)

theorem sticky_first_error_witness:
  "err (setErr NewCreateIndexQuery (Some (ErrCantFindColumn ''x''))) = Some (ErrCantFindColumn ''x'') \<and>
   err (setErr (setErr NewCreateIndexQuery (Some (ErrCantFindColumn ''x'')))
          (Some (errorsNew ''later''))) = Some (ErrCantFindColumn ''x'') \<and>
   (\<exists>q'. run_calls sample_extern (setErr NewCreateIndexQuery (Some (ErrCantFindColumn ''x'')))
           [Call_Column [''a''], Call_ExcludeColumn [''zz''], Call_whereDeleted, Call_Model VNil,
            Call_Where ''a = 1'' None] = Inr q' \<and>
         err q' = Some (ErrCantFindColumn ''x'') \<and>
         CreateIndex_AppendQuery sample_extern (sample_fmter False) q' ''SQL: '' =
           Inl (ErrCantFindColumn ''x''))"
proof -
  let ?q = "setErr NewCreateIndexQuery (Some (ErrCantFindColumn ''x''))"
  let ?cs = "[Call_Column [''a''], Call_ExcludeColumn [''zz''], Call_whereDeleted, Call_Model VNil,
            Call_Where ''a = 1'' None]"
  have h: "err ?q = Some (ErrCantFindColumn ''x'')"
    by (simp add: setErr_def NewCreateIndexQuery_def)
  have "\<exists>q'. run_calls sample_extern ?q ?cs = Inr q'"
    by (simp add: NewCreateIndexQuery_def setErr_def CreateIndex_Column_def addColumn_def
        append_slice_def UnsafeIdent_def CreateIndex_ExcludeColumn_def excludeColumn_def
        priv_excludeColumn_def whereDeleted_def checkSoftDelete_def CreateIndex_Model_def
        setTableModel_def sample_extern_def CreateIndex_Where_def)
  then obtain q' where r: "run_calls sample_extern ?q ?cs = Inr q'" ..
  show ?thesis
    using h r
      sticky_first_error [OF h, of "Some (errorsNew ''later'')" sample_extern ?cs q'
        "sample_fmter False" "''SQL: ''"]
    by simp
qed

section \<open>Grouped predicates\<close>

lemma addWhereGroup_empty_fn:
  "wheres (fn \<lparr>wheres = []\<rparr>) = [] \<Longrightarrow> addWhereGroup q sep fn = q"
  by (simp add: addWhereGroup_def)

lemma appendWhere_from_append:
  "appendWhere_from X fmter i b (xs @ ys) =
   bindE (appendWhere_from X fmter i b xs) (\<lambda>b'. appendWhere_from X fmter (i + length xs) b' ys)"
proof (induction xs arbitrary: i b)
  case Nil
  then show ?case by (simp add: bindE_def)
next
  case (Cons w xs)
  show ?case
    by (cases "appendWhere_body X fmter i b w") (simp_all add: Cons.IH bindE_def)
qed

lemma appendWhere_body_index:
  "appendWhere_body X fmter (Suc i) b w = appendWhere_body X fmter (Suc j) b w"
  by (simp add: appendWhere_body_def)

lemma appendWhere_from_index:
  "appendWhere_from X fmter (Suc i) b ws = appendWhere_from X fmter (Suc j) b ws"
proof (induction ws arbitrary: i j b)
  case Nil
  then show ?case by simp
next
  case (Cons w ws)
  have "appendWhere_from X fmter (Suc (Suc i)) b' ws = appendWhere_from X fmter (Suc (Suc j)) b' ws"
    for b' by (rule Cons.IH)
  then show ?case
    using appendWhere_body_index [of X fmter i b w j] by (simp split: sum.splits)
qed

lemma appendWhere_body_cleared:
  "appendWhere_body X fmter (Suc i) b (w\<lparr>Sep := []\<rparr>) = appendWhere_body X fmter 0 b w"
  by (simp add: appendWhere_body_def QueryWithArgs.truncate_def)

lemma appendWhere_from_cleared:
  "appendWhere_from X fmter (Suc i) b ((w\<lparr>Sep := []\<rparr>) # ws) = appendWhere_from X fmter 0 b (w # ws)"
  using appendWhere_from_index [of X fmter "Suc i" _ ws 0]
  by (simp add: appendWhere_body_cleared split: sum.splits)

lemma appendWhere_body_open:
  "appendWhere_body X fmter (Suc i) b (SafeQueryWithSep [] None s) = Inr (b @ s)"
  by (simp add: appendWhere_body_def SafeQueryWithSep_def)

lemma appendWhere_body_open_first:
  "appendWhere_body X fmter 0 b (SafeQueryWithSep [] None s) = Inr b"
  by (simp add: appendWhere_body_def SafeQueryWithSep_def)

lemma appendWhere_from_close:
  "appendWhere_from X fmter (Suc i) b [SafeQueryWithSep [] None s] = Inr (b @ s)"
  by (simp add: appendWhere_body_open)

lemma wheres_addWhereGroup:
  assumes "wheres (fn \<lparr>wheres = []\<rparr>) = w # ws"
  shows "wheres (addWhereGroup q sep fn) =
     wheres q @ SafeQueryWithSep [] None (sep @ ''('') # ((w\<lparr>Sep := []\<rparr>) # ws) @
     [SafeQueryWithSep [] None '')'']"
  using assms by (simp add: addWhereGroup_def addWhere_def Let_def)

lemma group_tail:
  "appendWhere_from X fmter (Suc i) b (((w\<lparr>Sep := []\<rparr>) # ws) @ [SafeQueryWithSep [] None '')''])
   = bindE (appendWhere_from X fmter 0 b (w # ws)) (\<lambda>b2. Inr (b2 @ '')''))"
proof -
  have "appendWhere_from X fmter (Suc i) b (((w\<lparr>Sep := []\<rparr>) # ws) @ [SafeQueryWithSep [] None '')''])
      = bindE (appendWhere_from X fmter (Suc i) b ((w\<lparr>Sep := []\<rparr>) # ws))
          (\<lambda>b'. appendWhere_from X fmter (Suc i + length ((w\<lparr>Sep := []\<rparr>) # ws)) b'
                  [SafeQueryWithSep [] None '')''])"
    by (rule appendWhere_from_append)
  also have "\<dots> = bindE (appendWhere_from X fmter 0 b (w # ws)) (\<lambda>b2. Inr (b2 @ '')''))"
    by (simp only: appendWhere_from_cleared add_Suc appendWhere_from_close)
  finally show ?thesis .
qed


text \<open>
  After at least one predicate, a group with inner predicates renders as the separator, an
  opening parenthesis, the inner list rendered from its index 0 (so without its first
  separator) and a closing parenthesis.
\<close>

lemma group_after_predicate:
  assumes "wheres q \<noteq> []" and "wheres (fn \<lparr>wheres = []\<rparr>) = inner" and "inner \<noteq> []"
  shows "priv_appendWhere X fmter b (wheres (addWhereGroup q sep fn)) =
     bindE (priv_appendWhere X fmter b (wheres q)) (\<lambda>b1.
     bindE (priv_appendWhere X fmter (b1 @ sep @ ''('') inner) (\<lambda>b2. Inr (b2 @ '')'')))"
proof -
  from assms(3) obtain w ws where inner: "inner = w # ws" by (cases inner) auto
  from assms(1) obtain n where n: "length (wheres q) = Suc n" by (cases "wheres q") auto
  have grp: "appendWhere_from X fmter (Suc n) b1
        (SafeQueryWithSep [] None (sep @ ''('') # ((w\<lparr>Sep := []\<rparr>) # ws) @ [SafeQueryWithSep [] None '')''])
      = bindE (appendWhere_from X fmter 0 (b1 @ sep @ ''('') (w # ws)) (\<lambda>b2. Inr (b2 @ '')''))" for b1
    by (simp only: appendWhere_from.simps(2) [of _ _ _ _ "SafeQueryWithSep [] None (sep @ ''('')"]
        appendWhere_body_open sum.case group_tail)
  have "priv_appendWhere X fmter b (wheres (addWhereGroup q sep fn)) =
      bindE (appendWhere_from X fmter 0 b (wheres q))
        (\<lambda>b1. appendWhere_from X fmter (0 + length (wheres q)) b1
           (SafeQueryWithSep [] None (sep @ ''('') # ((w\<lparr>Sep := []\<rparr>) # ws) @
            [SafeQueryWithSep [] None '')'']))"
    using assms(2) inner
    by (simp only: priv_appendWhere_def wheres_addWhereGroup appendWhere_from_append)
  then show ?thesis
    by (simp only: n add_0 grp priv_appendWhere_def inner)
qed

text \<open>As the first entry of the list, it renders as the inner list and a closing parenthesis.\<close>

lemma group_first_in_list:
  assumes "wheres q = []" and "wheres (fn \<lparr>wheres = []\<rparr>) = inner" and "inner \<noteq> []"
  shows "priv_appendWhere X fmter b (wheres (addWhereGroup q sep fn)) =
     bindE (priv_appendWhere X fmter b inner) (\<lambda>b2. Inr (b2 @ '')''))"
proof -
  from assms(3) obtain w ws where inner: "inner = w # ws" by (cases inner) auto
  have "wheres (addWhereGroup q sep fn) =
      SafeQueryWithSep [] None (sep @ ''('') # ((w\<lparr>Sep := []\<rparr>) # ws) @ [SafeQueryWithSep [] None '')'']"
    using wheres_addWhereGroup [of fn w ws q sep] assms(1,2) inner by simp
  then show ?thesis
    by (simp only: priv_appendWhere_def inner
        appendWhere_from.simps(2) [of _ _ _ _ "SafeQueryWithSep [] None (sep @ ''('')"]
        appendWhere_body_open_first sum.case group_tail)
qed

text \<open>
  C2. A group added to an empty outer list is at index 0 of the list, where \<^verbatim>\<open>_appendWhere\<close>
  emits no separator: the opening \<^verbatim>\<open>sep + "("\<close>, which is the separator of the punctuation
  fragment that opens the group, is dropped, and the closing parenthesis is still emitted. For the
  group \<^verbatim>\<open>WhereGroup(" AND ", fn)\<close> with \<^verbatim>\<open>fn\<close> adding \<^verbatim>\<open>a = 1\<close> and \<^verbatim>\<open>OR b = 2\<close> the rendering
  is \<^verbatim>\<open>(a = 1) OR (b = 2))\<close>.
\<close>

theorem group_first_in_list_unbalanced:
  "priv_appendWhere sample_extern (sample_fmter False) []
     (wheres (addWhereGroup \<lparr>wheres = []\<rparr> '' AND ''
        (\<lambda>q. WhereOr (Where q ''a = 1'' None) ''b = 2'' None)))
   = Inr ''(a = 1) OR (b = 2))''"
  by (simp add: addWhereGroup_def Where_def WhereOr_def addWhere_def SafeQueryWithSep_def
      priv_appendWhere_def appendWhere_body_def appendQ_def sample_extern_def sample_fmter_def
      Let_def QueryWithArgs.truncate_def)

section \<open>RETURNING\<close>

text \<open>Two pointers to fields with the same contents are two entries; one pointer is one.\<close>

lemma addReturningField_by_pointer:
  "returningFields (addReturningField (addReturningField \<lparr>returning = [], returningFields = []\<rparr>
      (1, id_field)) (2, id_field)) = [(1, id_field), (2, id_field)] \<and>
   returningFields (addReturningField (addReturningField \<lparr>returning = [], returningFields = []\<rparr>
      (1, id_field)) (1, id_field)) = [(1, id_field)]"
  by (simp add: addReturningField_def)




section \<open>Named arguments\<close>

text \<open>
  C9. \<^verbatim>\<open>AppendArg\<close> returns the buffer unchanged and false when no table is bound, and for every
  name other than the six; with a table bound, each of the six names gives true and the
  rendering of the table's name, alias, primary keys or fields.
\<close>

theorem AppendArg_names:
  "(table q = None \<longrightarrow> AppendArg fmter q b nm = (b, False)) \<and>
   (nm \<notin> {''TableName'', ''TableAlias'', ''PKs'', ''TablePKs'', ''Columns'', ''TableColumns''} \<longrightarrow>
      AppendArg fmter q b nm = (b, False)) \<and>
   (table q = Some t \<longrightarrow>
      AppendArg fmter q b ''TableName'' = (FormatQuery fmter b (Table.SQLName t) [], True) \<and>
      AppendArg fmter q b ''TableAlias'' = (FormatQuery fmter b (Alias t) [], True) \<and>
      AppendArg fmter q b ''PKs'' = (appendColumns b [] (PKs t), True) \<and>
      AppendArg fmter q b ''TablePKs'' = (appendColumns b (Alias t) (PKs t), True) \<and>
      AppendArg fmter q b ''Columns'' = (appendColumns b [] (Fields t), True) \<and>
      AppendArg fmter q b ''TableColumns'' = (appendColumns b (Alias t) (Fields t), True))"
  by (simp add: AppendArg_def split: option.splits)

theorem AppendArg_names_witness:
  "table NewCreateIndexQuery = None \<and>
   AppendArg (sample_fmter False) NewCreateIndexQuery ''x'' ''TableName'' = (''x'', False) \<and>
   ''Table'' \<notin> {''TableName'', ''TableAlias'', ''PKs'', ''TablePKs'', ''Columns'', ''TableColumns''} \<and>
   AppendArg (sample_fmter False) (NewCreateIndexQuery\<lparr>table := Some docs_table\<rparr>) ''x'' ''Table''
     = (''x'', False) \<and>
   table (NewCreateIndexQuery\<lparr>table := Some docs_table\<rparr>) = Some docs_table \<and>
   AppendArg (sample_fmter False) (NewCreateIndexQuery\<lparr>table := Some docs_table\<rparr>) ''x'' ''TableName''
     = (''xdocs'', True) \<and>
   AppendArg (sample_fmter False) (NewCreateIndexQuery\<lparr>table := Some docs_table\<rparr>) ''x'' ''TableAlias''
     = (''xt'', True) \<and>
   AppendArg (sample_fmter False) (NewCreateIndexQuery\<lparr>table := Some docs_table\<rparr>) ''x'' ''PKs''
     = (''xid, tenant'', True) \<and>
   AppendArg (sample_fmter False) (NewCreateIndexQuery\<lparr>table := Some docs_table\<rparr>) ''x'' ''TablePKs''
     = (''xt.id, t.tenant'', True) \<and>
   AppendArg (sample_fmter False) (NewCreateIndexQuery\<lparr>table := Some docs_table\<rparr>) ''x'' ''Columns''
     = (''xid, tenant, title, deleted_at'', True) \<and>
   AppendArg (sample_fmter False) (NewCreateIndexQuery\<lparr>table := Some docs_table\<rparr>) ''x'' ''TableColumns''
     = (''xt.id, t.tenant, t.title, t.deleted_at'', True)"
proof -
  let ?q = "NewCreateIndexQuery\<lparr>table := Some docs_table\<rparr>"
  have h1: "table NewCreateIndexQuery = None" by (simp add: NewCreateIndexQuery_def)
  have h2: "''Table'' \<notin> {''TableName'', ''TableAlias'', ''PKs'', ''TablePKs'', ''Columns'', ''TableColumns''}"
    by simp
  have h3: "table ?q = Some docs_table" by simp
  show ?thesis
    using h1 h2 h3
      AppendArg_names [of NewCreateIndexQuery "sample_fmter False" "''x''" "''TableName''" docs_table]
      AppendArg_names [of ?q "sample_fmter False" "''x''" "''Table''" docs_table]
    by (simp add: sample_fmter_def docs_table_def appendColumns_def id_field_def tenant_field_def
        title_field_def deleted_at_field_def)
qed

section \<open>The primary-key predicate\<close>

lemma show_int_digit:
  "show_int 5 = ''5''" "show_int 1 = ''1''" "show_int 2 = ''2''" "show_int 3 = ''3''"
  by (simp_all add: show_int_def show_nat.simps)

text \<open>
  C4. With a struct model, the primary key \<open>(id, tenant)\<close> and the alias \<open>t\<close>, the predicate is
  \<^verbatim>\<open>(t.id = ? AND t.tenant = ?)\<close> under the nop formatter, and \<^verbatim>\<open>(t.id = 5 AND t.tenant = 'acme')\<close>
  under a formatter with which the two fields append the literals \<^verbatim>\<open>5\<close> and \<^verbatim>\<open>'acme'\<close> for the
  struct.
\<close>

theorem pk_struct_render:
  assumes "table q = Some t" and "tableModel q = Some (structTableModel t' strct)"
    and "Alias t = ''t''" and "PKs t = [f1, f2]"
    and "Field.SQLName f1 = ''id''" and "Field.SQLName f2 = ''tenant''"
  shows "(IsNopFormatter fmter \<longrightarrow>
            appendWherePKStruct X fmter q b strct = Inr (b @ ''(t.id = ? AND t.tenant = ?)'') \<and>
            appendWherePK X fmter q b = Inr (b @ ''(t.id = ? AND t.tenant = ?)'')) \<and>
         (\<not> IsNopFormatter fmter \<and>
          (\<forall>b'. AppendValue X f1 fmter b' strct = b' @ ''5'') \<and>
          (\<forall>b'. AppendValue X f2 fmter b' strct = b' @ [CHR 0x27] @ ''acme'' @ [CHR 0x27]) \<longrightarrow>
            appendWherePKStruct X fmter q b strct = Inr (b @ ''(t.id = 5 AND t.tenant = 'acme')'') \<and>
            appendWherePK X fmter q b = Inr (b @ ''(t.id = 5 AND t.tenant = 'acme')''))"
  using assms
  by (simp add: appendWherePK_def appendWherePKStruct_def CheckPKs_def)

theorem pk_struct_render_witness:
  "appendWherePKStruct sample_extern (sample_fmter True)
     (NewCreateIndexQuery\<lparr>table := Some docs_table,
        tableModel := Some (structTableModel docs_table acme_doc)\<rparr>) '' WHERE '' acme_doc
     = Inr '' WHERE (t.id = ? AND t.tenant = ?)'' \<and>
   appendWherePK sample_extern (sample_fmter False)
     (NewCreateIndexQuery\<lparr>table := Some docs_table,
        tableModel := Some (structTableModel docs_table acme_doc)\<rparr>) '' WHERE ''
     = Inr '' WHERE (t.id = 5 AND t.tenant = 'acme')''"
proof -
  let ?q = "NewCreateIndexQuery\<lparr>table := Some docs_table,
        tableModel := Some (structTableModel docs_table acme_doc)\<rparr>"
  have h1: "table ?q = Some docs_table" by simp
  have h2: "tableModel ?q = Some (structTableModel docs_table acme_doc)" by simp
  have h3: "Alias docs_table = ''t''" by (simp add: docs_table_def)
  have h4: "PKs docs_table = [id_field, tenant_field]" by (simp add: docs_table_def)
  have h5: "Field.SQLName id_field = ''id''" by (simp add: id_field_def)
  have h6: "Field.SQLName tenant_field = ''tenant''" by (simp add: tenant_field_def)
  have n1: "IsNopFormatter (sample_fmter True)" by (simp add: IsNopFormatter_def sample_fmter_def)
  have n2: "\<not> IsNopFormatter (sample_fmter False)" by (simp add: IsNopFormatter_def sample_fmter_def)
  have v1: "\<forall>b'. AppendValue sample_extern id_field (sample_fmter False) b' acme_doc = b' @ ''5''"
    by (simp add: sample_extern_def acme_doc_def id_field_def show_int_digit)
  have v2: "\<forall>b'. AppendValue sample_extern tenant_field (sample_fmter False) b' acme_doc
               = b' @ [CHR 0x27] @ ''acme'' @ [CHR 0x27]"
    by (simp add: sample_extern_def acme_doc_def tenant_field_def)
  show ?thesis
    using n1 n2 v1 v2
      pk_struct_render [OF h1 h2 h3 h4 h5 h6, of "sample_fmter True" sample_extern "'' WHERE ''"]
      pk_struct_render [OF h1 h2 h3 h4 h5 h6, of "sample_fmter False" sample_extern "'' WHERE ''"]
    by simp
qed

text \<open>
  C5, as stated, for a table whose alias is \<open>t\<close>: the column of the \<^verbatim>\<open>IN\<close> predicate is qualified
  by the alias.
\<close>

theorem pk_slice_alias_counterexample:
  "appendWherePK sample_extern (sample_fmter False)
     (NewCreateIndexQuery\<lparr>table := Some items_table,
        tableModel := Some (sliceTableModel items_table three_items)\<rparr>) []
     = Inr ''t.id IN (1, 2, 3)'' \<and>
   ''t.id IN (1, 2, 3)'' \<noteq> ''id IN (1, 2, 3)'' \<and>
   appendWherePK sample_extern (sample_fmter True)
     (NewCreateIndexQuery\<lparr>table := Some items_table,
        tableModel := Some (sliceTableModel items_table three_items)\<rparr>) []
     = Inr ''t.id IN (?)'' \<and>
   ''t.id IN (?)'' \<noteq> ''id IN (?)''"
  by (simp add: appendWherePK_def CheckPKs_def appendWherePKSlice_def items_table_def id_field_def
      appendColumns_def IsNopFormatter_def sample_fmter_def sample_extern_def show_int_digit
      three_items_def)

text \<open>
  C5, amended. With a slice model of three elements and the single primary key \<open>id\<close>, the
  predicate is \<^verbatim>\<open><alias>.id IN (?)\<close> under the nop formatter, which renders the first element
  only, and \<^verbatim>\<open><alias>.id IN (1, 2, 3)\<close> under a formatter with which the field appends the
  literals \<^verbatim>\<open>1\<close>, \<^verbatim>\<open>2\<close>, \<^verbatim>\<open>3\<close> for the three elements; the column is bare only when the alias is
  empty.
\<close>

theorem pk_slice_render:
  assumes "table q = Some t" and "tableModel q = Some (sliceTableModel t' [e1, e2, e3])"
    and "PKs t = [f]" and "Field.SQLName f = ''id''"
  shows "(IsNopFormatter fmter \<longrightarrow>
            appendWherePK X fmter q b =
              Inr (b @ (if length (Alias t) > 0 then Alias t @ ''.'' else []) @ ''id IN (?)'')) \<and>
         (\<not> IsNopFormatter fmter \<and>
          (\<forall>b'. AppendValue X f fmter b' e1 = b' @ ''1'') \<and>
          (\<forall>b'. AppendValue X f fmter b' e2 = b' @ ''2'') \<and>
          (\<forall>b'. AppendValue X f fmter b' e3 = b' @ ''3'') \<longrightarrow>
            appendWherePK X fmter q b =
              Inr (b @ (if length (Alias t) > 0 then Alias t @ ''.'' else []) @ ''id IN (1, 2, 3)''))"
  using assms
  by (simp add: appendWherePK_def CheckPKs_def appendWherePKSlice_def appendColumns_def)

theorem pk_slice_render_witness:
  "appendWherePK sample_extern (sample_fmter True)
     (NewCreateIndexQuery\<lparr>table := Some items_table,
        tableModel := Some (sliceTableModel items_table three_items)\<rparr>) '' WHERE ''
     = Inr '' WHERE t.id IN (?)'' \<and>
   appendWherePK sample_extern (sample_fmter False)
     (NewCreateIndexQuery\<lparr>table := Some (items_table\<lparr>Alias := []\<rparr>),
        tableModel := Some (sliceTableModel items_table three_items)\<rparr>) '' WHERE ''
     = Inr '' WHERE id IN (1, 2, 3)''"
proof -
  let ?e1 = "VStruct [(''id'', VInt 1)]" and ?e2 = "VStruct [(''id'', VInt 2)]"
  let ?e3 = "VStruct [(''id'', VInt 3)]"
  let ?q1 = "NewCreateIndexQuery\<lparr>table := Some items_table,
        tableModel := Some (sliceTableModel items_table three_items)\<rparr>"
  let ?q2 = "NewCreateIndexQuery\<lparr>table := Some (items_table\<lparr>Alias := []\<rparr>),
        tableModel := Some (sliceTableModel items_table three_items)\<rparr>"
  have a1: "table ?q1 = Some items_table" by simp
  have a2: "table ?q2 = Some (items_table\<lparr>Alias := []\<rparr>)" by simp
  have m1: "tableModel ?q1 = Some (sliceTableModel items_table [?e1, ?e2, ?e3])"
    by (simp add: three_items_def)
  have m2: "tableModel ?q2 = Some (sliceTableModel items_table [?e1, ?e2, ?e3])"
    by (simp add: three_items_def)
  have p1: "PKs items_table = [id_field]" by (simp add: items_table_def)
  have p2: "PKs (items_table\<lparr>Alias := []\<rparr>) = [id_field]" by (simp add: items_table_def)
  have s: "Field.SQLName id_field = ''id''" by (simp add: id_field_def)
  have n1: "IsNopFormatter (sample_fmter True)" by (simp add: IsNopFormatter_def sample_fmter_def)
  have n2: "\<not> IsNopFormatter (sample_fmter False)" by (simp add: IsNopFormatter_def sample_fmter_def)
  have v: "\<forall>b'. AppendValue sample_extern id_field (sample_fmter False) b' ?e1 = b' @ ''1''"
    "\<forall>b'. AppendValue sample_extern id_field (sample_fmter False) b' ?e2 = b' @ ''2''"
    "\<forall>b'. AppendValue sample_extern id_field (sample_fmter False) b' ?e3 = b' @ ''3''"
    by (simp_all add: sample_extern_def id_field_def show_int_digit)
  have al: "Alias items_table = ''t''" by (simp add: items_table_def)
  show ?thesis
    using n1 n2 v al
      pk_slice_render [OF a1 m1 p1 s, of "sample_fmter True" sample_extern "'' WHERE ''"]
      pk_slice_render [OF a2 m2 p2 s, of "sample_fmter False" sample_extern "'' WHERE ''"]
    by simp
qed

section \<open>Excluding a column\<close>

lemma remove_column_first:
  "\<exists>c \<in> set cols. Args c = None \<and> Query c = nm \<Longrightarrow>
   \<exists>pre x post. cols = pre @ x # post \<and> (Args x = None \<and> Query x = nm) \<and>
     (\<forall>y \<in> set pre. \<not> (Args y = None \<and> Query y = nm)) \<and>
     remove_column nm cols = Some (pre @ post)"
proof (induction cols)
  case Nil
  then show ?case by simp
next
  case (Cons c cols)
  show ?case
  proof (cases "Args c = None \<and> Query c = nm")
    case True
    then have "c # cols = [] @ c # cols \<and> (Args c = None \<and> Query c = nm) \<and>
      (\<forall>y \<in> set []. \<not> (Args y = None \<and> Query y = nm)) \<and>
      remove_column nm (c # cols) = Some ([] @ cols)" by simp
    then show ?thesis by blast
  next
    case False
    with Cons.prems have "\<exists>c \<in> set cols. Args c = None \<and> Query c = nm" by auto
    from Cons.IH [OF this] obtain pre x post where
      p: "cols = pre @ x # post" "Args x = None \<and> Query x = nm"
         "\<forall>y \<in> set pre. \<not> (Args y = None \<and> Query y = nm)"
         "remove_column nm cols = Some (pre @ post)" by blast
    from p False have "c # cols = (c # pre) @ x # post \<and> (Args x = None \<and> Query x = nm) \<and>
      (\<forall>y \<in> set (c # pre). \<not> (Args y = None \<and> Query y = nm)) \<and>
      remove_column nm (c # cols) = Some ((c # pre) @ post)" by auto
    then show ?thesis by blast
  qed
qed

lemma remove_column_none:
  "\<forall>c \<in> set cols. \<not> (Args c = None \<and> Query c = nm) \<Longrightarrow> remove_column nm cols = None"
  by (induction cols) auto

lemma materialize_state:
  "foldl (\<lambda>q f. q\<lparr>columns := append_slice (columns q) (UnsafeIdent (Name f))\<rparr>) q fs =
   q\<lparr>columns := foldl (\<lambda>c f. append_slice c (UnsafeIdent (Name f))) (columns q) fs\<rparr>"
  by (induction fs arbitrary: q) simp_all

lemma materialize_some:
  "foldl (\<lambda>c f. append_slice c (UnsafeIdent (Name f))) (Some cs) fs =
   Some (cs @ map (\<lambda>f. UnsafeIdent (Name f)) fs)"
  by (induction fs arbitrary: cs) (simp_all add: append_slice_def)

lemma append_slice_nil: "append_slice None x = Some [x]"
  by (simp add: append_slice_def)

lemma materialize_nil:
  "foldl (\<lambda>c f. append_slice c (UnsafeIdent (Name f))) None fs =
   (if fs = [] then None else Some (map (\<lambda>f. UnsafeIdent (Name f)) fs))"
  by (cases fs) (simp_all add: append_slice_nil materialize_some)

lemma columns_update_same: "columns q = c \<Longrightarrow> q\<lparr>columns := c\<rparr> = q"
  by auto

lemma excludeColumn_columns_set:
  "columns q = Some cols \<Longrightarrow>
   excludeColumn q [nm] =
     Inr (case remove_column nm cols of
            Some cols' \<Rightarrow> q\<lparr>columns := Some cols'\<rparr>
          | None \<Rightarrow> setErr q (Some (ErrCantFindColumn nm)))"
  by (simp add: excludeColumn_def priv_excludeColumn_def split: option.splits)

lemma excludeColumn_columns_nil:
  "columns q = None \<Longrightarrow> table q = Some t \<Longrightarrow>
   excludeColumn q [nm] =
     Inr (if Fields t = [] then setErr q (Some (ErrCantFindColumn nm))
          else case remove_column nm (map (\<lambda>f. UnsafeIdent (Name f)) (Fields t)) of
            Some cols' \<Rightarrow> q\<lparr>columns := Some cols'\<rparr>
          | None \<Rightarrow> setErr (q\<lparr>columns := Some (map (\<lambda>f. UnsafeIdent (Name f)) (Fields t))\<rparr>)
                      (Some (ErrCantFindColumn nm)))"
  by (simp add: excludeColumn_def priv_excludeColumn_def materialize_state materialize_nil
      columns_update_same split: option.splits)

text \<open>
  C7. With a table bound, let the column list be the explicit one, or the identifier fragments
  of the table's fields when none was set. When a fragment with nil args and the given text is
  in the list, \<^verbatim>\<open>excludeColumn\<close> removes the first one and keeps the others in their order, and
  changes nothing else; when there is none, it records (by \<^verbatim>\<open>setErr\<close>, so unless an error is
  already recorded) the error \<^verbatim>\<open>bun: can't find column=\<close> with the name, on the materialized
  list.
\<close>

theorem excludeColumn_single:
  assumes "table q = Some t"
  shows
    "let cols = (case columns q of
                   None \<Rightarrow> map (\<lambda>f. UnsafeIdent (Name f)) (Fields t)
                 | Some cs \<Rightarrow> cs);
         is_raw = (\<lambda>c. Args c = None \<and> Query c = nm)
     in ((\<exists>c \<in> set cols. is_raw c) \<longrightarrow>
           (\<exists>pre x post. cols = pre @ x # post \<and> is_raw x \<and> (\<forall>y \<in> set pre. \<not> is_raw y) \<and>
              excludeColumn q [nm] = Inr (q\<lparr>columns := Some (pre @ post)\<rparr>))) \<and>
        ((\<forall>c \<in> set cols. \<not> is_raw c) \<longrightarrow>
           excludeColumn q [nm] =
             Inr (setErr (q\<lparr>columns := (if cols = [] then columns q else Some cols)\<rparr>)
                    (Some (ErrCantFindColumn nm))))"
proof (cases "columns q")
  case None
  let ?cols = "map (\<lambda>f. UnsafeIdent (Name f)) (Fields t)"
  have found: "\<exists>pre x post. ?cols = pre @ x # post \<and> (Args x = None \<and> Query x = nm) \<and>
      (\<forall>y \<in> set pre. \<not> (Args y = None \<and> Query y = nm)) \<and>
      excludeColumn q [nm] = Inr (q\<lparr>columns := Some (pre @ post)\<rparr>)"
    if ex: "\<exists>c \<in> set ?cols. Args c = None \<and> Query c = nm"
  proof -
    from remove_column_first [OF ex] obtain pre x post where
      p: "?cols = pre @ x # post" "Args x = None \<and> Query x = nm"
         "\<forall>y \<in> set pre. \<not> (Args y = None \<and> Query y = nm)"
         "remove_column nm ?cols = Some (pre @ post)" by blast
    from ex have ne: "Fields t \<noteq> []" by auto
    have "excludeColumn q [nm] = Inr (q\<lparr>columns := Some (pre @ post)\<rparr>)"
      using excludeColumn_columns_nil [OF None assms, of nm] ne p(4) by simp
    with p show ?thesis by blast
  qed
  have missing: "excludeColumn q [nm] =
      Inr (setErr (q\<lparr>columns := (if ?cols = [] then columns q else Some ?cols)\<rparr>)
             (Some (ErrCantFindColumn nm)))"
    if no: "\<forall>c \<in> set ?cols. \<not> (Args c = None \<and> Query c = nm)"
    using excludeColumn_columns_nil [OF None assms, of nm] remove_column_none [OF no] None
    by (simp add: columns_update_same)
  show ?thesis using None found missing by (simp add: Let_def)
next
  case (Some cols)
  have found: "\<exists>pre x post. cols = pre @ x # post \<and> (Args x = None \<and> Query x = nm) \<and>
      (\<forall>y \<in> set pre. \<not> (Args y = None \<and> Query y = nm)) \<and>
      excludeColumn q [nm] = Inr (q\<lparr>columns := Some (pre @ post)\<rparr>)"
    if ex: "\<exists>c \<in> set cols. Args c = None \<and> Query c = nm"
  proof -
    from remove_column_first [OF ex] obtain pre x post where
      p: "cols = pre @ x # post" "Args x = None \<and> Query x = nm"
         "\<forall>y \<in> set pre. \<not> (Args y = None \<and> Query y = nm)"
         "remove_column nm cols = Some (pre @ post)" by blast
    have "excludeColumn q [nm] = Inr (q\<lparr>columns := Some (pre @ post)\<rparr>)"
      using excludeColumn_columns_set [OF Some, of nm] p(4) by simp
    with p show ?thesis by blast
  qed
  have missing: "excludeColumn q [nm] =
      Inr (setErr (q\<lparr>columns := (if cols = [] then columns q else Some cols)\<rparr>)
             (Some (ErrCantFindColumn nm)))"
    if no: "\<forall>c \<in> set cols. \<not> (Args c = None \<and> Query c = nm)"
  proof -
    have "q\<lparr>columns := (if cols = [] then columns q else Some cols)\<rparr> = q"
      using Some by simp
    then show ?thesis
      using excludeColumn_columns_set [OF Some, of nm] remove_column_none [OF no] by simp
  qed
  show ?thesis using Some found missing by (simp add: Let_def)
qed



theorem excludeColumn_single_witness:
  "table (NewCreateIndexQuery\<lparr>table := Some docs_table\<rparr>) = Some docs_table \<and>
   (\<exists>pre x post.
      [UnsafeIdent ''id'', UnsafeIdent ''tenant'', UnsafeIdent ''title'', UnsafeIdent ''deleted_at'']
        = pre @ x # post \<and>
      (Args x = None \<and> Query x = ''tenant'') \<and>
      (\<forall>y \<in> set pre. \<not> (Args y = None \<and> Query y = ''tenant'')) \<and>
      excludeColumn (NewCreateIndexQuery\<lparr>table := Some docs_table\<rparr>) [''tenant''] =
        Inr (NewCreateIndexQuery\<lparr>table := Some docs_table, columns := Some (pre @ post)\<rparr>)) \<and>
   excludeColumn (NewCreateIndexQuery\<lparr>table := Some docs_table\<rparr>) [''tenant''] =
     Inr (NewCreateIndexQuery\<lparr>table := Some docs_table,
            columns := Some [UnsafeIdent ''id'', UnsafeIdent ''title'', UnsafeIdent ''deleted_at'']\<rparr>) \<and>
   excludeColumn (NewCreateIndexQuery\<lparr>table := Some docs_table\<rparr>) [''nope''] =
     Inr (NewCreateIndexQuery\<lparr>table := Some docs_table,
            columns := Some [UnsafeIdent ''id'', UnsafeIdent ''tenant'', UnsafeIdent ''title'',
                             UnsafeIdent ''deleted_at''],
            err := Some (ErrCantFindColumn ''nope'')\<rparr>)"
proof -
  let ?q = "NewCreateIndexQuery\<lparr>table := Some docs_table\<rparr>"
  have h: "table ?q = Some docs_table" by simp
  have c: "columns NewCreateIndexQuery = None" "err NewCreateIndexQuery = None"
    by (simp_all add: NewCreateIndexQuery_def)
  have f: "map (\<lambda>f. UnsafeIdent (Name f)) (Fields docs_table) =
      [UnsafeIdent ''id'', UnsafeIdent ''tenant'', UnsafeIdent ''title'', UnsafeIdent ''deleted_at'']"
    by (simp add: docs_table_def id_field_def tenant_field_def title_field_def deleted_at_field_def)
  have A: "\<exists>pre x post.
      [UnsafeIdent ''id'', UnsafeIdent ''tenant'', UnsafeIdent ''title'', UnsafeIdent ''deleted_at'']
        = pre @ x # post \<and>
      (Args x = None \<and> Query x = ''tenant'') \<and>
      (\<forall>y \<in> set pre. \<not> (Args y = None \<and> Query y = ''tenant'')) \<and>
      excludeColumn ?q [''tenant''] = Inr (?q\<lparr>columns := Some (pre @ post)\<rparr>)"
    using excludeColumn_single [OF h, of "''tenant''"]
    by (simp add: c f Let_def) (simp add: UnsafeIdent_def)
  have B: "excludeColumn ?q [''tenant''] =
     Inr (?q\<lparr>columns := Some [UnsafeIdent ''id'', UnsafeIdent ''title'', UnsafeIdent ''deleted_at'']\<rparr>)"
    using excludeColumn_columns_nil [of ?q docs_table "''tenant''"]
    by (simp add: c f) (simp add: UnsafeIdent_def docs_table_def)
  have C: "excludeColumn ?q [''nope''] =
     Inr (?q\<lparr>columns := Some [UnsafeIdent ''id'', UnsafeIdent ''tenant'', UnsafeIdent ''title'',
                             UnsafeIdent ''deleted_at''],
            err := Some (ErrCantFindColumn ''nope'')\<rparr>)"
    using excludeColumn_single [OF h, of "''nope''"]
    by (simp add: c f Let_def setErr_def) (simp add: UnsafeIdent_def)
  show ?thesis by (rule conjI [OF h conjI [OF A conjI [OF B C]]])
qed

section \<open>Soft-delete flags\<close>

lemma Has_push_bit:
  fixes fl :: Flag
  assumes "k < 64"
  shows "Has fl (push_bit k 1) \<longleftrightarrow> bit fl k"
proof
  assume "Has fl (push_bit k 1)"
  then have "bit (fl AND push_bit k 1) k = bit (push_bit k 1 :: Flag) k"
    by (simp only: Has_def)
  then show "bit fl k" using assms by (simp add: bit_simps)
next
  assume b: "bit fl k"
  have "fl AND push_bit k 1 = push_bit k 1"
  proof (rule bit_word_eqI)
    fix n
    assume "n < LENGTH(64)"
    with b show "bit (fl AND push_bit k 1) n \<longleftrightarrow> bit (push_bit k 1 :: Flag) n"
      by (auto simp: bit_simps)
  qed
  then show "Has fl (push_bit k 1)" by (simp only: Has_def)
qed

lemma bit_Set_push_bit: "j < 64 \<Longrightarrow> bit (Set_flag fl (push_bit j 1)) k \<longleftrightarrow> bit fl k \<or> k = j"
  by (auto simp: Set_flag_def bit_simps)

lemma bit_Remove_push_bit: "bit (Remove fl (push_bit j 1)) k \<longleftrightarrow> bit fl k \<and> k \<noteq> j"
  by (auto simp: Remove_def bit_simps dest: bit_imp_le_length)

lemma Has_wherePKFlag: "Has fl wherePKFlag \<longleftrightarrow> bit fl 0"
  unfolding wherePKFlag_def by (rule Has_push_bit) simp

lemma Has_deletedFlag: "Has fl deletedFlag \<longleftrightarrow> bit fl 1"
  unfolding deletedFlag_def by (rule Has_push_bit) simp

lemma Has_allWithDeletedFlag: "Has fl allWithDeletedFlag \<longleftrightarrow> bit fl 2"
  unfolding allWithDeletedFlag_def by (rule Has_push_bit) simp

lemma bit_Set_deleted: "bit (Set_flag fl deletedFlag) k \<longleftrightarrow> bit fl k \<or> k = 1"
  unfolding deletedFlag_def by (rule bit_Set_push_bit) simp

lemma bit_Set_allWithDeleted: "bit (Set_flag fl allWithDeletedFlag) k \<longleftrightarrow> bit fl k \<or> k = 2"
  unfolding allWithDeletedFlag_def by (rule bit_Set_push_bit) simp

lemma bit_Remove_deleted: "bit (Remove fl deletedFlag) k \<longleftrightarrow> bit fl k \<and> k \<noteq> 1"
  unfolding deletedFlag_def by (rule bit_Remove_push_bit)

lemma bit_Remove_allWithDeleted: "bit (Remove fl allWithDeletedFlag) k \<longleftrightarrow> bit fl k \<and> k \<noteq> 2"
  unfolding allWithDeletedFlag_def by (rule bit_Remove_push_bit)

lemmas flag_bits = Has_wherePKFlag Has_deletedFlag Has_allWithDeletedFlag bit_Set_deleted
  bit_Set_allWithDeleted bit_Remove_deleted bit_Remove_allWithDeleted

lemma whereDeleted_ok:
  "checkSoftDelete q = None \<Longrightarrow>
   whereDeleted q = q\<lparr>flags := Remove (Set_flag (flags q) deletedFlag) allWithDeletedFlag\<rparr>"
  by (simp add: whereDeleted_def)

lemma whereAllWithDeleted_ok:
  "checkSoftDelete q = None \<Longrightarrow>
   whereAllWithDeleted q = q\<lparr>flags := Remove (Set_flag (flags q) allWithDeletedFlag) deletedFlag\<rparr>"
  by (simp add: whereAllWithDeleted_def)

lemma checkSoftDelete_flags: "checkSoftDelete (q\<lparr>flags := fl\<rparr>) = checkSoftDelete q"
  by (auto simp: checkSoftDelete_def split: option.splits)

lemma whereDeleted_exclusive: "flags_exclusive (whereDeleted q)" if "flags_exclusive q"
  using that unfolding flags_exclusive_def
  by (cases "checkSoftDelete q") (simp_all add: whereDeleted_def setErr_def flag_bits)

lemma whereAllWithDeleted_exclusive:
  "flags_exclusive (whereAllWithDeleted q)" if "flags_exclusive q"
  using that unfolding flags_exclusive_def
  by (cases "checkSoftDelete q") (simp_all add: whereAllWithDeleted_def setErr_def flag_bits)

lemma base_setErr:
  "flags (setErr q e) = flags q" "table (setErr q e) = table q"
  "tableModel (setErr q e) = tableModel q"
  by (simp_all add: setErr_def)

lemma base_addTable:
  "flags (addTable q tbl) = flags q" "table (addTable q tbl) = table q"
  "tableModel (addTable q tbl) = tableModel q"
  by (simp_all add: addTable_def)

lemma base_addColumn:
  "flags (addColumn q c) = flags q" "table (addColumn q c) = table q"
  "tableModel (addColumn q c) = tableModel q"
  by (simp_all add: addColumn_def)

lemma base_addWith:
  "flags (addWith q nm qry) = flags q" "table (addWith q nm qry) = table q"
  "tableModel (addWith q nm qry) = tableModel q"
  by (simp_all add: addWith_def)

lemma base_CreateIndex_Table:
  "flags (CreateIndex_Table q ts) = flags q \<and> table (CreateIndex_Table q ts) = table q \<and>
   tableModel (CreateIndex_Table q ts) = tableModel q"
  unfolding CreateIndex_Table_def
  by (induction ts arbitrary: q) (simp_all add: base_addTable)

lemma base_CreateIndex_Column:
  "flags (CreateIndex_Column q cs) = flags q \<and> table (CreateIndex_Column q cs) = table q \<and>
   tableModel (CreateIndex_Column q cs) = tableModel q"
  unfolding CreateIndex_Column_def
  by (induction cs arbitrary: q) (simp_all add: base_addColumn)

lemma base_CreateIndex_Include:
  "flags (CreateIndex_Include q cs) = flags q \<and> table (CreateIndex_Include q cs) = table q \<and>
   tableModel (CreateIndex_Include q cs) = tableModel q"
  unfolding CreateIndex_Include_def
  by (induction cs arbitrary: q) simp_all

lemma base_priv_excludeColumn:
  "flags (fst (priv_excludeColumn q c)) = flags q"
  "table (fst (priv_excludeColumn q c)) = table q"
  "tableModel (fst (priv_excludeColumn q c)) = tableModel q"
  by (simp_all add: priv_excludeColumn_def split: option.splits)

lemma base_excludeColumn_loop:
  "flags (excludeColumn_loop q cs) = flags q \<and> table (excludeColumn_loop q cs) = table q \<and>
   tableModel (excludeColumn_loop q cs) = tableModel q"
proof (induction cs arbitrary: q)
  case Nil
  then show ?case by simp
next
  case (Cons c cs)
  obtain q' found where pe: "priv_excludeColumn q c = (q', found)"
    by (cases "priv_excludeColumn q c")
  have "flags q' = flags q \<and> table q' = table q \<and> tableModel q' = tableModel q"
    using base_priv_excludeColumn [of q c] pe by simp
  then show ?case
    using pe Cons.IH [of q'] by (cases found) (simp_all add: base_setErr)
qed

lemma base_excludeColumn:
  "case excludeColumn q cs of
     Inl x \<Rightarrow> True
   | Inr q' \<Rightarrow> flags q' = flags q \<and> table q' = table q \<and> tableModel q' = tableModel q"
  unfolding excludeColumn_def
  by (simp add: base_excludeColumn_loop materialize_state split: option.splits)

lemma flags_setTableModel: "flags (setTableModel X q m) = flags q"
  by (simp add: setTableModel_def setErr_def Let_def split: sum.splits model.splits)

lemma table_bound_setTableModel: "table_bound q \<Longrightarrow> table_bound (setTableModel X q m)"
  by (auto simp: setTableModel_def base_setErr Let_def table_bound_def
      split: sum.splits model.splits option.splits)

lemma base_whereDeleted:
  "table (whereDeleted q) = table q" "tableModel (whereDeleted q) = tableModel q"
  by (simp_all add: whereDeleted_def setErr_def Let_def split: option.splits)

lemma base_whereAllWithDeleted:
  "table (whereAllWithDeleted q) = table q" "tableModel (whereAllWithDeleted q) = tableModel q"
  by (simp_all add: whereAllWithDeleted_def setErr_def Let_def split: option.splits)

lemma apply_call_exclusive:
  "flags_exclusive q \<Longrightarrow>
   (case apply_call X q c of Inl x \<Rightarrow> True | Inr q' \<Rightarrow> flags_exclusive q')"
proof (cases c)
  case (Call_ExcludeColumn cs)
  assume "flags_exclusive q"
  then show ?thesis using Call_ExcludeColumn base_excludeColumn [of q cs]
    by (simp add: CreateIndex_ExcludeColumn_def flags_exclusive_def split: sum.splits)
next
  case Call_whereDeleted
  assume "flags_exclusive q"
  then show ?thesis using Call_whereDeleted by (simp add: whereDeleted_exclusive)
next
  case Call_whereAllWithDeleted
  assume "flags_exclusive q"
  then show ?thesis using Call_whereAllWithDeleted by (simp add: whereAllWithDeleted_exclusive)
qed (simp_all add: flags_exclusive_def CreateIndex_Model_def CreateIndex_Unique_def
      CreateIndex_Concurrently_def CreateIndex_IfNotExists_def CreateIndex_Index_def
      CreateIndex_TableExpr_def CreateIndex_ModelTableExpr_def CreateIndex_Using_def
      CreateIndex_ColumnExpr_def CreateIndex_IncludeExpr_def CreateIndex_Where_def
      CreateIndex_WhereOr_def CreateIndex_WhereGroup_def base_addTable base_addColumn
      base_addWith base_CreateIndex_Table base_CreateIndex_Column base_CreateIndex_Include
      flags_setTableModel base_setErr)

lemma run_calls_exclusive:
  "flags_exclusive q \<Longrightarrow> run_calls X q cs = Inr q' \<Longrightarrow> flags_exclusive q'"
proof (induction cs arbitrary: q)
  case Nil
  then show ?case by simp
next
  case (Cons c cs)
  show ?case
  proof (cases "apply_call X q c")
    case (Inl e)
    with Cons.prems show ?thesis by simp
  next
    case (Inr q1)
    with apply_call_exclusive [OF Cons.prems(1), of X c] have "flags_exclusive q1" by simp
    with Cons.IH [of q1] Cons.prems(2) Inr show ?thesis by simp
  qed
qed

lemma apply_call_table_bound:
  "table_bound q \<Longrightarrow>
   (case apply_call X q c of Inl x \<Rightarrow> True | Inr q' \<Rightarrow> table_bound q')"
proof (cases c)
  case (Call_ExcludeColumn cs)
  assume "table_bound q"
  then show ?thesis using Call_ExcludeColumn base_excludeColumn [of q cs]
    by (simp add: CreateIndex_ExcludeColumn_def table_bound_def split: sum.splits)
next
  case (Call_Model m)
  assume "table_bound q"
  then show ?thesis using Call_Model
    by (simp add: CreateIndex_Model_def table_bound_setTableModel)
qed (simp_all add: table_bound_def CreateIndex_Unique_def
      CreateIndex_Concurrently_def CreateIndex_IfNotExists_def CreateIndex_Index_def
      CreateIndex_TableExpr_def CreateIndex_ModelTableExpr_def CreateIndex_Using_def
      CreateIndex_ColumnExpr_def CreateIndex_IncludeExpr_def CreateIndex_Where_def
      CreateIndex_WhereOr_def CreateIndex_WhereGroup_def base_addTable base_addColumn
      base_addWith base_CreateIndex_Table base_CreateIndex_Column base_CreateIndex_Include
      base_whereDeleted base_whereAllWithDeleted base_setErr)

lemma run_calls_table_bound:
  "table_bound q \<Longrightarrow> run_calls X q cs = Inr q' \<Longrightarrow> table_bound q'"
proof (induction cs arbitrary: q)
  case Nil
  then show ?case by simp
next
  case (Cons c cs)
  show ?case
  proof (cases "apply_call X q c")
    case (Inl e)
    with Cons.prems show ?thesis by simp
  next
    case (Inr q1)
    with apply_call_table_bound [OF Cons.prems(1), of X c] have "table_bound q1" by simp
    with Cons.IH [of q1] Cons.prems(2) Inr show ?thesis by simp
  qed
qed

lemma NewCreateIndexQuery_invariants:
  "table_bound NewCreateIndexQuery" "flags_exclusive NewCreateIndexQuery"
  by (simp_all add: table_bound_def flags_exclusive_def NewCreateIndexQuery_def flag_bits)


lemma checkSoftDelete_bound:
  "table q = Some t \<Longrightarrow> SoftDeleteField t = Some f \<Longrightarrow> tableModel q = Some tm \<Longrightarrow>
   checkSoftDelete q = None"
  by (simp add: checkSoftDelete_def)

lemma checkSoftDelete_no_field:
  "table q = Some t \<Longrightarrow> SoftDeleteField t = None \<Longrightarrow>
   checkSoftDelete q = Some (ErrNoSoftDeleteField t)"
  by (simp add: checkSoftDelete_def)

text \<open>
  C8. On a state whose table has a soft-delete field and whose table model is bound,
  \<^verbatim>\<open>whereDeleted\<close> then \<^verbatim>\<open>whereAllWithDeleted\<close> leaves the include-all flag set and the
  only-deleted flag unset, and the other order the reverse; the restrict-to-PK flag and the error
  are as before. The two flags are never both set: a state in which they are not both set (the
  new query is one) stays so under every sequence of mutator calls. On a table without a
  soft-delete field either call leaves the flags as they are and records, by \<^verbatim>\<open>setErr\<close>, the
  error \<^verbatim>\<open>%s does not have a soft delete field\<close>.
\<close>

theorem soft_delete_flags:
  "(table q = Some t \<and> SoftDeleteField t = Some f \<and> tableModel q = Some tm \<longrightarrow>
      Has (flags (whereAllWithDeleted (whereDeleted q))) allWithDeletedFlag \<and>
      \<not> Has (flags (whereAllWithDeleted (whereDeleted q))) deletedFlag \<and>
      Has (flags (whereDeleted (whereAllWithDeleted q))) deletedFlag \<and>
      \<not> Has (flags (whereDeleted (whereAllWithDeleted q))) allWithDeletedFlag \<and>
      (Has (flags (whereAllWithDeleted (whereDeleted q))) wherePKFlag \<longleftrightarrow>
         Has (flags q) wherePKFlag) \<and>
      err (whereAllWithDeleted (whereDeleted q)) = err q) \<and>
   (flags_exclusive q \<and> run_calls X q cs = Inr q' \<longrightarrow> flags_exclusive q') \<and>
   (table q = Some t \<and> SoftDeleteField t = None \<longrightarrow>
      flags (whereDeleted q) = flags q \<and> flags (whereAllWithDeleted q) = flags q \<and>
      err (whereDeleted q) =
        (case err q of None \<Rightarrow> Some (ErrNoSoftDeleteField t) | Some e \<Rightarrow> Some e) \<and>
      err (whereAllWithDeleted q) =
        (case err q of None \<Rightarrow> Some (ErrNoSoftDeleteField t) | Some e \<Rightarrow> Some e))"
proof (intro conjI impI)
  assume a: "table q = Some t \<and> SoftDeleteField t = Some f \<and> tableModel q = Some tm"
  then have c: "checkSoftDelete q = None" by (simp add: checkSoftDelete_bound)
  have d: "whereDeleted q = q\<lparr>flags := Remove (Set_flag (flags q) deletedFlag) allWithDeletedFlag\<rparr>"
    using c by (rule whereDeleted_ok)
  have e: "whereAllWithDeleted q =
      q\<lparr>flags := Remove (Set_flag (flags q) allWithDeletedFlag) deletedFlag\<rparr>"
    using c by (rule whereAllWithDeleted_ok)
  have de: "whereAllWithDeleted (whereDeleted q) =
      q\<lparr>flags := Remove (Set_flag (Remove (Set_flag (flags q) deletedFlag) allWithDeletedFlag)
                     allWithDeletedFlag) deletedFlag\<rparr>"
    using c by (simp add: d whereAllWithDeleted_ok checkSoftDelete_flags)
  have ed: "whereDeleted (whereAllWithDeleted q) =
      q\<lparr>flags := Remove (Set_flag (Remove (Set_flag (flags q) allWithDeletedFlag) deletedFlag)
                     deletedFlag) allWithDeletedFlag\<rparr>"
    using c by (simp add: e whereDeleted_ok checkSoftDelete_flags)
  show "Has (flags (whereAllWithDeleted (whereDeleted q))) allWithDeletedFlag"
    by (simp add: de flag_bits)
  show "\<not> Has (flags (whereAllWithDeleted (whereDeleted q))) deletedFlag"
    by (simp add: de flag_bits)
  show "Has (flags (whereDeleted (whereAllWithDeleted q))) deletedFlag"
    by (simp add: ed flag_bits)
  show "\<not> Has (flags (whereDeleted (whereAllWithDeleted q))) allWithDeletedFlag"
    by (simp add: ed flag_bits)
  show "Has (flags (whereAllWithDeleted (whereDeleted q))) wherePKFlag \<longleftrightarrow> Has (flags q) wherePKFlag"
    by (simp add: de flag_bits)
  show "err (whereAllWithDeleted (whereDeleted q)) = err q"
    by (simp add: de)
next
  assume "flags_exclusive q \<and> run_calls X q cs = Inr q'"
  then show "flags_exclusive q'" using run_calls_exclusive by blast
next
  assume a: "table q = Some t \<and> SoftDeleteField t = None"
  then have c: "checkSoftDelete q = Some (ErrNoSoftDeleteField t)"
    by (simp add: checkSoftDelete_no_field)
  show "flags (whereDeleted q) = flags q"
    by (simp add: whereDeleted_def c base_setErr)
  show "flags (whereAllWithDeleted q) = flags q"
    by (simp add: whereAllWithDeleted_def c base_setErr)
  show "err (whereDeleted q) =
        (case err q of None \<Rightarrow> Some (ErrNoSoftDeleteField t) | Some e \<Rightarrow> Some e)"
    by (simp add: whereDeleted_def c setErr_def split: option.splits)
  show "err (whereAllWithDeleted q) =
        (case err q of None \<Rightarrow> Some (ErrNoSoftDeleteField t) | Some e \<Rightarrow> Some e)"
    by (simp add: whereAllWithDeleted_def c setErr_def split: option.splits)
qed

theorem soft_delete_flags_witness:
  "Has (flags (whereAllWithDeleted (whereDeleted
      (NewCreateIndexQuery\<lparr>tableModel := Some (structTableModel docs_table acme_doc),
         table := Some docs_table\<rparr>)))) allWithDeletedFlag \<and>
   \<not> Has (flags (whereAllWithDeleted (whereDeleted
      (NewCreateIndexQuery\<lparr>tableModel := Some (structTableModel docs_table acme_doc),
         table := Some docs_table\<rparr>)))) deletedFlag \<and>
   (\<exists>q'. run_calls sample_extern NewCreateIndexQuery
           [Call_Model acme_doc, Call_whereDeleted, Call_whereAllWithDeleted, Call_whereDeleted]
           = Inr q' \<and> flags_exclusive q') \<and>
   flags (whereDeleted (NewCreateIndexQuery\<lparr>tableModel := Some (sliceTableModel items_table three_items),
         table := Some items_table\<rparr>)) = 0 \<and>
   err (whereAllWithDeleted (NewCreateIndexQuery\<lparr>tableModel := Some (sliceTableModel items_table three_items),
         table := Some items_table\<rparr>)) = Some (ErrNoSoftDeleteField items_table)"
proof -
  let ?q0 = "NewCreateIndexQuery\<lparr>tableModel := Some (structTableModel docs_table acme_doc),
         table := Some docs_table\<rparr>"
  let ?q1 = "NewCreateIndexQuery\<lparr>tableModel := Some (sliceTableModel items_table three_items),
         table := Some items_table\<rparr>"
  let ?cs = "[Call_Model acme_doc, Call_whereDeleted, Call_whereAllWithDeleted, Call_whereDeleted]"
  have h0: "table ?q0 = Some docs_table \<and> SoftDeleteField docs_table = Some deleted_at_field \<and>
      tableModel ?q0 = Some (structTableModel docs_table acme_doc)"
    by (simp add: docs_table_def)
  have h1: "table ?q1 = Some items_table \<and> SoftDeleteField items_table = None"
    by (simp add: items_table_def)
  have n: "flags NewCreateIndexQuery = 0" "err NewCreateIndexQuery = None"
    by (simp_all add: NewCreateIndexQuery_def)
  have x: "flags_exclusive NewCreateIndexQuery" by (rule NewCreateIndexQuery_invariants)
  have "\<exists>q'. run_calls sample_extern NewCreateIndexQuery ?cs = Inr q'"
    by simp
  then obtain q' where r: "run_calls sample_extern NewCreateIndexQuery ?cs = Inr q'" ..
  have A: "Has (flags (whereAllWithDeleted (whereDeleted ?q0))) allWithDeletedFlag \<and>
      \<not> Has (flags (whereAllWithDeleted (whereDeleted ?q0))) deletedFlag"
    using h0 soft_delete_flags [of ?q0 docs_table deleted_at_field "structTableModel docs_table acme_doc"]
    by blast
  have B: "flags_exclusive q'"
    using x r soft_delete_flags [of NewCreateIndexQuery _ _ _ sample_extern ?cs q'] by blast
  have C: "flags (whereDeleted ?q1) = 0 \<and>
      err (whereAllWithDeleted ?q1) = Some (ErrNoSoftDeleteField items_table)"
    using h1 n soft_delete_flags [of ?q1 items_table] by simp
  show ?thesis using A B C r by blast
qed

section \<open>The WHERE clause of a write statement\<close>

lemma appendQ_error: "appendQ X f fmter b = Inl e \<Longrightarrow> \<exists>m. e = ErrExternal m"
  by (auto simp: appendQ_def split: sum.splits)

lemma appendWhere_body_error:
  "appendWhere_body X fmter i b w = Inl e \<Longrightarrow> \<exists>m. e = ErrExternal m"
  by (auto simp: appendWhere_body_def Let_def split: if_splits sum.splits dest: appendQ_error)

lemma appendWhere_from_error:
  "appendWhere_from X fmter i b ws = Inl e \<Longrightarrow> \<exists>m. e = ErrExternal m"
proof (induction ws arbitrary: i b)
  case Nil
  then show ?case by simp
next
  case (Cons w ws)
  show ?case
  proof (cases "appendWhere_body X fmter i b w")
    case (Inl e')
    with Cons.prems have "e = e'" by simp
    with Inl appendWhere_body_error show ?thesis by blast
  next
    case (Inr b')
    with Cons.prems have "appendWhere_from X fmter (Suc i) b' ws = Inl e" by simp
    with Cons.IH show ?thesis by blast
  qed
qed

lemma appendWherePK_error:
  "appendWherePK X fmter q b = Inl e \<Longrightarrow> \<forall>s. e \<noteq> errorsNew s"
  by (auto simp: appendWherePK_def CheckPKs_def appendWherePKStruct_def appendWherePKSlice_def
      Let_def split: option.splits if_splits tableModel.splits)

lemma appendWhereSoftDelete_error:
  "appendWhereSoftDelete q b = Inl e \<Longrightarrow> e = PanicNilDeref"
  by (auto simp: appendWhereSoftDelete_def Let_def split: option.splits if_splits)

lemma appendWhere_steps:
  "appendWhere X fmter q b =
     (if wheres (whereQuery q) = [] \<and> \<not> isSoftDelete q \<and> \<not> Has (flags q) wherePKFlag then Inr b
      else
        bindE (if wheres (whereQuery q) \<noteq> []
               then priv_appendWhere X fmter (b @ '' WHERE '') (wheres (whereQuery q))
               else Inr (b @ '' WHERE ''))
          (\<lambda>b1.
        bindE (if isSoftDelete q then
                 (case tableModel q of
                    None \<Rightarrow> Inl PanicNilDeref
                  | Some tm \<Rightarrow>
                      appendWhereSoftDelete q
                        ((if length b1 > length (b @ '' WHERE '') then b1 @ '' AND '' else b1)
                         @ Alias (Table_of tm)))
               else Inr b1)
          (\<lambda>b2.
        if Has (flags q) wherePKFlag then
          appendWherePK X fmter q (if length b2 > length (b @ '' WHERE '') then b2 @ '' AND '' else b2)
        else Inr b2)))"
  by (simp only: appendWhere_def Let_def length_0_conv length_greater_0_conv)

lemma appendWhere_error:
  assumes "appendWhere X fmter q b = Inl e"
  shows "e \<noteq> errorsNew s"
proof
  assume es: "e = errorsNew s"
  let ?ws = "wheres (whereQuery q)"
  define r1 where "r1 = (if ?ws \<noteq> [] then priv_appendWhere X fmter (b @ '' WHERE '') ?ws
               else Inr (b @ '' WHERE ''))"
  define r2 where "r2 = (\<lambda>b1. if isSoftDelete q then
                 (case tableModel q of
                    None \<Rightarrow> Inl PanicNilDeref
                  | Some tm \<Rightarrow>
                      appendWhereSoftDelete q
                        ((if length b1 > length (b @ '' WHERE '') then b1 @ '' AND '' else b1)
                         @ Alias (Table_of tm)))
               else Inr b1)"
  define r3 where "r3 = (\<lambda>b2. if Has (flags q) wherePKFlag then
          appendWherePK X fmter q (if length b2 > length (b @ '' WHERE '') then b2 @ '' AND '' else b2)
        else Inr b2)"
  have r1_err: "r1 \<noteq> Inl (errorsNew s)"
    using appendWhere_from_error [of X fmter 0 "b @ '' WHERE ''" ?ws "errorsNew s"]
    by (auto simp: r1_def priv_appendWhere_def)
  have r2_err: "r2 b1 \<noteq> Inl (errorsNew s)" for b1
    by (auto simp: r2_def split: option.splits dest: appendWhereSoftDelete_error)
  have r3_err: "r3 b2 \<noteq> Inl (errorsNew s)" for b2
    by (auto simp: r3_def dest: appendWherePK_error)
  have "appendWhere X fmter q b = Inr b \<or>
        appendWhere X fmter q b = bindE r1 (\<lambda>b1. bindE (r2 b1) r3)"
    unfolding r1_def r2_def r3_def by (simp only: appendWhere_steps split: if_splits) simp
  with assms es have "bindE r1 (\<lambda>b1. bindE (r2 b1) r3) = Inl (errorsNew s)" by auto
  then show False
    using r1_err r2_err r3_err by (auto simp: bindE_def split: sum.splits)
qed


lemma appendWherePK_cases:
  "appendWherePK X fmter q b =
     (case table q of
        None \<Rightarrow> Inl PanicNilDeref
      | Some t \<Rightarrow>
          if PKs t = [] then Inl (ErrNoPKs t)
          else
            (case tableModel q of
               None \<Rightarrow> Inl (ErrWherePKNotSupported ''<nil>'')
             | Some (structTableModel t' strct) \<Rightarrow>
                 Inr (appendWherePKStruct_from X fmter (IsNopFormatter fmter) t strct 0
                        (b @ ''('') (PKs t) @ '')'')
             | Some (sliceTableModel t' els) \<Rightarrow>
                 Inr (slice_rows_from X fmter (IsNopFormatter fmter) (PKs t) 0
                        (appendColumns (if length (PKs t) > 1 then b @ ''('' else b)
                           (Alias t) (PKs t)
                         @ (if length (PKs t) > 1 then '')'' else []) @ '' IN ('')
                        els @ '')'')
             | Some (otherTableModel k t') \<Rightarrow> Inl (ErrWherePKNotSupported k)))"
  by (simp add: appendWherePK_def CheckPKs_def appendWherePKStruct_def appendWherePKSlice_def
      Let_def split: option.splits tableModel.splits)

lemma mustAppendWhere_pk_flag:
  assumes "wheres (whereQuery q) = []" and "Has (flags q) wherePKFlag"
  shows "mustAppendWhere X fmter q b =
       (if \<not> isSoftDelete q then appendWherePK X fmter q (b @ '' WHERE '')
        else
          (case tableModel q of
             None \<Rightarrow> Inl PanicNilDeref
           | Some tm \<Rightarrow>
               (case SoftDeleteField (Table_of tm) of
                  None \<Rightarrow> Inl PanicNilDeref
                | Some f \<Rightarrow>
                    appendWherePK X fmter q
                      (b @ '' WHERE '' @ Alias (Table_of tm) @ ''.'' @ Field.SQLName f @
                       (if Has (flags q) deletedFlag then '' IS NOT NULL'' else '' IS NULL'') @
                       '' AND ''))))"
  using assms
  by (simp add: mustAppendWhere_def appendWhere_steps bindE_def appendWhereSoftDelete_def
      split: option.splits)

text \<open>
  C6, as stated, on a state with the restrict-to-PK flag and no predicate: with a table that
  has a soft-delete field the clause holds the soft-delete predicate before the primary-key
  predicate, and with a table that has no primary key the call fails.
\<close>

theorem mustAppendWhere_pk_only_counterexample:
  "mustAppendWhere sample_extern (sample_fmter False)
     (NewCreateIndexQuery\<lparr>tableModel := Some (structTableModel docs_table acme_doc),
        table := Some docs_table, flags := wherePKFlag\<rparr>) ''DELETE FROM docs''
     = Inr ''DELETE FROM docs WHERE t.deleted_at IS NULL AND (t.id = 5 AND t.tenant = 'acme')'' \<and>
   appendWherePK sample_extern (sample_fmter False)
     (NewCreateIndexQuery\<lparr>tableModel := Some (structTableModel docs_table acme_doc),
        table := Some docs_table, flags := wherePKFlag\<rparr>) []
     = Inr ''(t.id = 5 AND t.tenant = 'acme')'' \<and>
   mustAppendWhere sample_extern (sample_fmter False)
     (NewCreateIndexQuery\<lparr>tableModel := Some (structTableModel (items_table\<lparr>PKs := []\<rparr>) acme_doc),
        table := Some (items_table\<lparr>PKs := []\<rparr>), flags := wherePKFlag\<rparr>) ''DELETE FROM items''
     = Inl (ErrNoPKs (items_table\<lparr>PKs := []\<rparr>))"
proof -
  have w: "wheres (whereQuery NewCreateIndexQuery) = []"
    by (simp add: NewCreateIndexQuery_def)
  have f: "Has wherePKFlag wherePKFlag" "\<not> Has wherePKFlag allWithDeletedFlag"
    "\<not> Has wherePKFlag deletedFlag"
    by (simp_all only: Has_wherePKFlag Has_allWithDeletedFlag Has_deletedFlag)
      (simp_all add: wherePKFlag_def bit_simps)
  have pk: "appendWherePK sample_extern (sample_fmter False)
     (NewCreateIndexQuery\<lparr>tableModel := Some (structTableModel docs_table acme_doc),
        table := Some docs_table, flags := wherePKFlag\<rparr>) b
     = Inr (b @ ''(t.id = 5 AND t.tenant = 'acme')'')" for b
    by (simp add: appendWherePK_def CheckPKs_def appendWherePKStruct_def docs_table_def
        id_field_def tenant_field_def IsNopFormatter_def sample_fmter_def sample_extern_def
        acme_doc_def show_int_digit)
  have A: "mustAppendWhere sample_extern (sample_fmter False)
     (NewCreateIndexQuery\<lparr>tableModel := Some (structTableModel docs_table acme_doc),
        table := Some docs_table, flags := wherePKFlag\<rparr>) ''DELETE FROM docs''
     = Inr ''DELETE FROM docs WHERE t.deleted_at IS NULL AND (t.id = 5 AND t.tenant = 'acme')''"
    by (simp add: mustAppendWhere_def appendWhere_steps w f isSoftDelete_def bindE_def pk
        appendWhereSoftDelete_def)
      (simp add: docs_table_def deleted_at_field_def Let_def f)
  have B: "mustAppendWhere sample_extern (sample_fmter False)
     (NewCreateIndexQuery\<lparr>tableModel := Some (structTableModel (items_table\<lparr>PKs := []\<rparr>) acme_doc),
        table := Some (items_table\<lparr>PKs := []\<rparr>), flags := wherePKFlag\<rparr>) ''DELETE FROM items''
     = Inl (ErrNoPKs (items_table\<lparr>PKs := []\<rparr>))"
    by (simp add: mustAppendWhere_def appendWhere_steps w f isSoftDelete_def bindE_def
        appendWherePK_def CheckPKs_def)
      (simp add: items_table_def Let_def f)
  show ?thesis using A B pk [of "[]"] by simp
qed

text \<open>
  C6, amended. \<^verbatim>\<open>mustAppendWhere\<close> returns the error \<^verbatim>\<open>bun: Update and Delete queries require
  Where clause (try WherePK)\<close> if and only if the where list is empty and the restrict-to-PK
  flag is unset. With the flag set and an empty where list it returns what the primary-key
  predicate returns after \<^verbatim>\<open> WHERE \<close>, alone when soft-delete filtering is off, and after the
  soft-delete predicate and \<^verbatim>\<open> AND \<close> when it is on (it panics when filtering is on and the table
  model is nil or its table has no soft-delete field). The primary-key predicate succeeds,
  with the rendering of its loops, when the table has a primary key and the model is a struct
  or a slice; it returns the \<^verbatim>\<open>CheckPKs\<close> error when the table has no primary key and the error
  \<^verbatim>\<open>bun: WherePK does not support %T\<close> for any other model, and panics when no table is bound.
\<close>

theorem mustAppendWhere_requires_where:
  "(mustAppendWhere X fmter q b =
      Inl (errorsNew ''bun: Update and Delete queries require Where clause (try WherePK)'')
    \<longleftrightarrow> wheres (whereQuery q) = [] \<and> \<not> Has (flags q) wherePKFlag) \<and>
   (wheres (whereQuery q) = [] \<and> Has (flags q) wherePKFlag \<longrightarrow>
      mustAppendWhere X fmter q b =
       (if \<not> isSoftDelete q then appendWherePK X fmter q (b @ '' WHERE '')
        else
          (case tableModel q of
             None \<Rightarrow> Inl PanicNilDeref
           | Some tm \<Rightarrow>
               (case SoftDeleteField (Table_of tm) of
                  None \<Rightarrow> Inl PanicNilDeref
                | Some f \<Rightarrow>
                    appendWherePK X fmter q
                      (b @ '' WHERE '' @ Alias (Table_of tm) @ ''.'' @ Field.SQLName f @
                       (if Has (flags q) deletedFlag then '' IS NOT NULL'' else '' IS NULL'') @
                       '' AND ''))))) \<and>
   appendWherePK X fmter q b' =
     (case table q of
        None \<Rightarrow> Inl PanicNilDeref
      | Some t \<Rightarrow>
          if PKs t = [] then Inl (ErrNoPKs t)
          else
            (case tableModel q of
               None \<Rightarrow> Inl (ErrWherePKNotSupported ''<nil>'')
             | Some (structTableModel t' strct) \<Rightarrow>
                 Inr (appendWherePKStruct_from X fmter (IsNopFormatter fmter) t strct 0
                        (b' @ ''('') (PKs t) @ '')'')
             | Some (sliceTableModel t' els) \<Rightarrow>
                 Inr (slice_rows_from X fmter (IsNopFormatter fmter) (PKs t) 0
                        (appendColumns (if length (PKs t) > 1 then b' @ ''('' else b')
                           (Alias t) (PKs t)
                         @ (if length (PKs t) > 1 then '')'' else []) @ '' IN ('')
                        els @ '')'')
             | Some (otherTableModel k t') \<Rightarrow> Inl (ErrWherePKNotSupported k)))"
proof (intro conjI impI)
  show "mustAppendWhere X fmter q b =
      Inl (errorsNew ''bun: Update and Delete queries require Where clause (try WherePK)'')
    \<longleftrightarrow> wheres (whereQuery q) = [] \<and> \<not> Has (flags q) wherePKFlag"
    using appendWhere_error [of X fmter q b]
    by (auto simp: mustAppendWhere_def)
next
  assume a: "wheres (whereQuery q) = [] \<and> Has (flags q) wherePKFlag"
  then have "wheres (whereQuery q) = []" and "Has (flags q) wherePKFlag" by simp_all
  then show "mustAppendWhere X fmter q b =
       (if \<not> isSoftDelete q then appendWherePK X fmter q (b @ '' WHERE '')
        else
          (case tableModel q of
             None \<Rightarrow> Inl PanicNilDeref
           | Some tm \<Rightarrow>
               (case SoftDeleteField (Table_of tm) of
                  None \<Rightarrow> Inl PanicNilDeref
                | Some f \<Rightarrow>
                    appendWherePK X fmter q
                      (b @ '' WHERE '' @ Alias (Table_of tm) @ ''.'' @ Field.SQLName f @
                       (if Has (flags q) deletedFlag then '' IS NOT NULL'' else '' IS NULL'') @
                       '' AND ''))))"
    by (rule mustAppendWhere_pk_flag)
next
  show "appendWherePK X fmter q b' =
     (case table q of
        None \<Rightarrow> Inl PanicNilDeref
      | Some t \<Rightarrow>
          if PKs t = [] then Inl (ErrNoPKs t)
          else
            (case tableModel q of
               None \<Rightarrow> Inl (ErrWherePKNotSupported ''<nil>'')
             | Some (structTableModel t' strct) \<Rightarrow>
                 Inr (appendWherePKStruct_from X fmter (IsNopFormatter fmter) t strct 0
                        (b' @ ''('') (PKs t) @ '')'')
             | Some (sliceTableModel t' els) \<Rightarrow>
                 Inr (slice_rows_from X fmter (IsNopFormatter fmter) (PKs t) 0
                        (appendColumns (if length (PKs t) > 1 then b' @ ''('' else b')
                           (Alias t) (PKs t)
                         @ (if length (PKs t) > 1 then '')'' else []) @ '' IN ('')
                        els @ '')'')
             | Some (otherTableModel k t') \<Rightarrow> Inl (ErrWherePKNotSupported k)))"
    by (rule appendWherePK_cases)
qed


theorem mustAppendWhere_requires_where_witness:
  "mustAppendWhere sample_extern (sample_fmter False) NewCreateIndexQuery ''DELETE FROM docs''
     = Inl (errorsNew ''bun: Update and Delete queries require Where clause (try WherePK)'') \<and>
   mustAppendWhere sample_extern (sample_fmter False)
     (NewCreateIndexQuery\<lparr>tableModel := Some (structTableModel items_table acme_doc),
        table := Some items_table, flags := wherePKFlag\<rparr>) ''DELETE FROM items''
     = Inr ''DELETE FROM items WHERE (t.id = 5)'' \<and>
   mustAppendWhere sample_extern (sample_fmter False)
     (NewCreateIndexQuery\<lparr>tableModel := Some (sliceTableModel items_table three_items),
        table := Some items_table, flags := wherePKFlag\<rparr>) ''DELETE FROM items''
     = Inr ''DELETE FROM items WHERE t.id IN (1, 2, 3)'' \<and>
   mustAppendWhere sample_extern (sample_fmter False)
     (NewCreateIndexQuery\<lparr>tableModel := Some (structTableModel docs_table acme_doc),
        table := Some docs_table, flags := wherePKFlag\<rparr>) ''DELETE FROM docs''
     = Inr ''DELETE FROM docs WHERE t.deleted_at IS NULL AND (t.id = 5 AND t.tenant = 'acme')'' \<and>
   mustAppendWhere sample_extern (sample_fmter False)
     (NewCreateIndexQuery\<lparr>tableModel := Some (structTableModel (items_table\<lparr>PKs := []\<rparr>) acme_doc),
        table := Some (items_table\<lparr>PKs := []\<rparr>), flags := wherePKFlag\<rparr>) ''DELETE FROM items''
     = Inl (ErrNoPKs (items_table\<lparr>PKs := []\<rparr>)) \<and>
   mustAppendWhere sample_extern (sample_fmter False)
     (NewCreateIndexQuery\<lparr>tableModel := Some (otherTableModel ''*bun.m2mModel'' items_table),
        table := Some items_table, flags := wherePKFlag\<rparr>) ''DELETE FROM items''
     = Inl (ErrWherePKNotSupported ''*bun.m2mModel'') \<and>
   mustAppendWhere sample_extern (sample_fmter False)
     (NewCreateIndexQuery\<lparr>flags := wherePKFlag\<rparr>) ''DELETE FROM items''
     = Inl PanicNilDeref"
proof -
  let ?X = sample_extern and ?f = "sample_fmter False"
  let ?qi = "NewCreateIndexQuery\<lparr>tableModel := Some (structTableModel items_table acme_doc),
        table := Some items_table, flags := wherePKFlag\<rparr>"
  let ?qs = "NewCreateIndexQuery\<lparr>tableModel := Some (sliceTableModel items_table three_items),
        table := Some items_table, flags := wherePKFlag\<rparr>"
  let ?qd = "NewCreateIndexQuery\<lparr>tableModel := Some (structTableModel docs_table acme_doc),
        table := Some docs_table, flags := wherePKFlag\<rparr>"
  let ?qn = "NewCreateIndexQuery\<lparr>tableModel := Some (structTableModel (items_table\<lparr>PKs := []\<rparr>) acme_doc),
        table := Some (items_table\<lparr>PKs := []\<rparr>), flags := wherePKFlag\<rparr>"
  let ?qo = "NewCreateIndexQuery\<lparr>tableModel := Some (otherTableModel ''*bun.m2mModel'' items_table),
        table := Some items_table, flags := wherePKFlag\<rparr>"
  let ?qp = "NewCreateIndexQuery\<lparr>flags := wherePKFlag\<rparr>"
  have w: "wheres (whereQuery NewCreateIndexQuery) = []" "flags NewCreateIndexQuery = 0"
    "table NewCreateIndexQuery = None"
    by (simp_all add: NewCreateIndexQuery_def)
  have f: "Has wherePKFlag wherePKFlag" "\<not> Has wherePKFlag allWithDeletedFlag"
    "\<not> Has wherePKFlag deletedFlag" "\<not> Has 0 wherePKFlag"
    by (simp_all only: Has_wherePKFlag Has_allWithDeletedFlag Has_deletedFlag)
      (simp_all add: wherePKFlag_def bit_simps)
  have h0: "wheres (whereQuery NewCreateIndexQuery) = [] \<and> \<not> Has (flags NewCreateIndexQuery) wherePKFlag"
    by (simp add: w f)
  have hi: "wheres (whereQuery ?qi) = [] \<and> Has (flags ?qi) wherePKFlag"
    and hs: "wheres (whereQuery ?qs) = [] \<and> Has (flags ?qs) wherePKFlag"
    and hd: "wheres (whereQuery ?qd) = [] \<and> Has (flags ?qd) wherePKFlag"
    and hn: "wheres (whereQuery ?qn) = [] \<and> Has (flags ?qn) wherePKFlag"
    and ho: "wheres (whereQuery ?qo) = [] \<and> Has (flags ?qo) wherePKFlag"
    and hp: "wheres (whereQuery ?qp) = [] \<and> Has (flags ?qp) wherePKFlag"
    by (simp_all add: w f)
  have si: "\<not> isSoftDelete ?qi" "\<not> isSoftDelete ?qs" "\<not> isSoftDelete ?qn" "\<not> isSoftDelete ?qo"
    "\<not> isSoftDelete ?qp"
    by (simp_all add: isSoftDelete_def items_table_def w)
  have sd: "isSoftDelete ?qd" "SoftDeleteField docs_table = Some deleted_at_field"
    by (simp_all add: isSoftDelete_def docs_table_def f)
  note T = mustAppendWhere_requires_where [where X = ?X and fmter = ?f]
  have A: "mustAppendWhere ?X ?f NewCreateIndexQuery ''DELETE FROM docs''
     = Inl (errorsNew ''bun: Update and Delete queries require Where clause (try WherePK)'')"
    using h0 T [where q = NewCreateIndexQuery and b = "''DELETE FROM docs''"] by blast
  have Mi: "mustAppendWhere ?X ?f ?qi ''DELETE FROM items''
      = appendWherePK ?X ?f ?qi ''DELETE FROM items WHERE ''"
    using hi si(1) T [where q = ?qi and b = "''DELETE FROM items''"] by simp
  have Pi: "appendWherePK ?X ?f ?qi ''DELETE FROM items WHERE '' = Inr ''DELETE FROM items WHERE (t.id = 5)''"
    using T [where q = ?qi and b' = "''DELETE FROM items WHERE ''"]
    by (simp add: items_table_def id_field_def IsNopFormatter_def sample_fmter_def sample_extern_def
        acme_doc_def show_int_digit)
  have Ms: "mustAppendWhere ?X ?f ?qs ''DELETE FROM items''
      = appendWherePK ?X ?f ?qs ''DELETE FROM items WHERE ''"
    using hs si(2) T [where q = ?qs and b = "''DELETE FROM items''"] by simp
  have Ps: "appendWherePK ?X ?f ?qs ''DELETE FROM items WHERE ''
      = Inr ''DELETE FROM items WHERE t.id IN (1, 2, 3)''"
    using T [where q = ?qs and b' = "''DELETE FROM items WHERE ''"]
    by (simp add: items_table_def id_field_def IsNopFormatter_def sample_fmter_def sample_extern_def
        three_items_def appendColumns_def show_int_digit)
  have Md: "mustAppendWhere ?X ?f ?qd ''DELETE FROM docs''
      = appendWherePK ?X ?f ?qd ''DELETE FROM docs WHERE t.deleted_at IS NULL AND ''"
    using hd sd f T [where q = ?qd and b = "''DELETE FROM docs''"]
    by (simp add: docs_table_def deleted_at_field_def)
  have Pd: "appendWherePK ?X ?f ?qd ''DELETE FROM docs WHERE t.deleted_at IS NULL AND ''
      = Inr ''DELETE FROM docs WHERE t.deleted_at IS NULL AND (t.id = 5 AND t.tenant = 'acme')''"
    using T [where q = ?qd and b' = "''DELETE FROM docs WHERE t.deleted_at IS NULL AND ''"]
    by (simp add: docs_table_def id_field_def tenant_field_def IsNopFormatter_def sample_fmter_def
        sample_extern_def acme_doc_def show_int_digit)
  have Mn: "mustAppendWhere ?X ?f ?qn ''DELETE FROM items''
      = appendWherePK ?X ?f ?qn ''DELETE FROM items WHERE ''"
    using hn si(3) T [where q = ?qn and b = "''DELETE FROM items''"] by simp
  have Pn: "appendWherePK ?X ?f ?qn ''DELETE FROM items WHERE '' = Inl (ErrNoPKs (items_table\<lparr>PKs := []\<rparr>))"
    using T [where q = ?qn and b' = "''DELETE FROM items WHERE ''"] by simp
  have Mo: "mustAppendWhere ?X ?f ?qo ''DELETE FROM items''
      = appendWherePK ?X ?f ?qo ''DELETE FROM items WHERE ''"
    using ho si(4) T [where q = ?qo and b = "''DELETE FROM items''"] by simp
  have Po: "appendWherePK ?X ?f ?qo ''DELETE FROM items WHERE '' = Inl (ErrWherePKNotSupported ''*bun.m2mModel'')"
    using T [where q = ?qo and b' = "''DELETE FROM items WHERE ''"]
    by (simp add: items_table_def)
  have Mp: "mustAppendWhere ?X ?f ?qp ''DELETE FROM items''
      = appendWherePK ?X ?f ?qp ''DELETE FROM items WHERE ''"
    using hp si(5) T [where q = ?qp and b = "''DELETE FROM items''"] by simp
  have Pp: "appendWherePK ?X ?f ?qp ''DELETE FROM items WHERE '' = Inl PanicNilDeref"
    using T [where q = ?qp and b' = "''DELETE FROM items WHERE ''"] by (simp add: w)
  show ?thesis
    by (rule conjI [OF A conjI [OF trans [OF Mi Pi] conjI [OF trans [OF Ms Ps]
          conjI [OF trans [OF Md Pd] conjI [OF trans [OF Mn Pn] conjI [OF trans [OF Mo Po]
          trans [OF Mp Pp]]]]]]])
qed

section \<open>Soft-delete filtering by default\<close>

lemma table_bound_model:
  "table q = Some t \<Longrightarrow> table_bound q \<Longrightarrow> \<exists>tm. tableModel q = Some tm \<and> Table_of tm = t"
  by (cases "tableModel q") (auto simp: table_bound_def)

text \<open>
  C10. On a state whose table has a soft-delete field (and whose table model is the one that
  \<^verbatim>\<open>setTableModel\<close> bound with it), soft-delete filtering is on exactly when the include-all flag
  is unset. Then, whenever the where list renders, \<^verbatim>\<open>appendWhere\<close> emits after it (joined by
  \<^verbatim>\<open> AND \<close> if something was rendered) \<^verbatim>\<open><alias>.<softDeleteField> IS NULL\<close>, or \<^verbatim>\<open>IS NOT NULL\<close> when
  the only-deleted flag is set, before the primary-key predicate if that is asked for; an error
  of the where list is returned as it is. With no flag ever set and no predicate the clause is
  \<^verbatim>\<open> WHERE <alias>.<softDeleteField> IS NULL\<close>. With the include-all flag set the predicate is
  not emitted, whatever the where list and the restrict-to-PK flag: the result is the where
  list followed by the primary-key predicate if that is asked for, and nothing at all with no
  predicate and no restriction to the primary key.
\<close>

theorem soft_delete_default:
  assumes "table q = Some t" and "SoftDeleteField t = Some f" and "table_bound q"
  shows
    "(isSoftDelete q \<longleftrightarrow> \<not> Has (flags q) allWithDeletedFlag) \<and>
     (\<not> Has (flags q) allWithDeletedFlag \<and>
      (if wheres (whereQuery q) \<noteq> []
       then priv_appendWhere X fmter (b @ '' WHERE '') (wheres (whereQuery q))
       else Inr (b @ '' WHERE '')) = Inr b1 \<longrightarrow>
        appendWhere X fmter q b =
          (let b2 = (if length b1 > length (b @ '' WHERE '') then b1 @ '' AND '' else b1)
                    @ Alias t @ ''.'' @ Field.SQLName f
                    @ (if Has (flags q) deletedFlag then '' IS NOT NULL'' else '' IS NULL'')
           in if Has (flags q) wherePKFlag
              then appendWherePK X fmter q
                     (if length b2 > length (b @ '' WHERE '') then b2 @ '' AND '' else b2)
              else Inr b2)) \<and>
     (flags q = 0 \<and> wheres (whereQuery q) = [] \<longrightarrow>
        appendWhere X fmter q b =
          Inr (b @ '' WHERE '' @ Alias t @ ''.'' @ Field.SQLName f @ '' IS NULL'')) \<and>
     (Has (flags q) allWithDeletedFlag \<and> wheres (whereQuery q) = [] \<and>
      \<not> Has (flags q) wherePKFlag \<longrightarrow>
        appendWhere X fmter q b = Inr b) \<and>
     (\<not> Has (flags q) allWithDeletedFlag \<and>
      (if wheres (whereQuery q) \<noteq> []
       then priv_appendWhere X fmter (b @ '' WHERE '') (wheres (whereQuery q))
       else Inr (b @ '' WHERE '')) = Inl e \<longrightarrow>
        appendWhere X fmter q b = Inl e) \<and>
     (Has (flags q) allWithDeletedFlag \<longrightarrow>
        appendWhere X fmter q b =
          (if wheres (whereQuery q) = [] \<and> \<not> Has (flags q) wherePKFlag then Inr b
           else
             bindE (if wheres (whereQuery q) \<noteq> []
                    then priv_appendWhere X fmter (b @ '' WHERE '') (wheres (whereQuery q))
                    else Inr (b @ '' WHERE ''))
               (\<lambda>b1. if Has (flags q) wherePKFlag
                     then appendWherePK X fmter q
                            (if length b1 > length (b @ '' WHERE '') then b1 @ '' AND '' else b1)
                     else Inr b1)))"
proof -
  from table_bound_model [OF assms(1) assms(3)] obtain tm where
    tm: "tableModel q = Some tm" "Table_of tm = t" by blast
  have sd: "isSoftDelete q \<longleftrightarrow> \<not> Has (flags q) allWithDeletedFlag"
    using assms by (simp add: isSoftDelete_def)
  have zero: "\<not> Has 0 allWithDeletedFlag" "\<not> Has 0 deletedFlag" "\<not> Has 0 wherePKFlag"
    by (simp_all add: Has_allWithDeletedFlag Has_deletedFlag Has_wherePKFlag)
  have gen: "appendWhere X fmter q b =
          (let b2 = (if length b1 > length (b @ '' WHERE '') then b1 @ '' AND '' else b1)
                    @ Alias t @ ''.'' @ Field.SQLName f
                    @ (if Has (flags q) deletedFlag then '' IS NOT NULL'' else '' IS NULL'')
           in if Has (flags q) wherePKFlag
              then appendWherePK X fmter q
                     (if length b2 > length (b @ '' WHERE '') then b2 @ '' AND '' else b2)
              else Inr b2)"
    if "\<not> Has (flags q) allWithDeletedFlag"
      and "(if wheres (whereQuery q) \<noteq> []
       then priv_appendWhere X fmter (b @ '' WHERE '') (wheres (whereQuery q))
       else Inr (b @ '' WHERE '')) = Inr b1"
    using that sd tm assms(2)
    by (simp add: appendWhere_steps bindE_def appendWhereSoftDelete_def Let_def)
  have dflt: "appendWhere X fmter q b =
          Inr (b @ '' WHERE '' @ Alias t @ ''.'' @ Field.SQLName f @ '' IS NULL'')"
    if "flags q = 0 \<and> wheres (whereQuery q) = []"
    using that sd tm assms(2) zero
    by (simp add: appendWhere_steps bindE_def appendWhereSoftDelete_def Let_def)
  have off: "appendWhere X fmter q b = Inr b"
    if "Has (flags q) allWithDeletedFlag \<and> wheres (whereQuery q) = [] \<and>
      \<not> Has (flags q) wherePKFlag"
    using that sd by (simp add: appendWhere_steps)
  have fails: "appendWhere X fmter q b = Inl e"
    if "\<not> Has (flags q) allWithDeletedFlag \<and>
      (if wheres (whereQuery q) \<noteq> []
       then priv_appendWhere X fmter (b @ '' WHERE '') (wheres (whereQuery q))
       else Inr (b @ '' WHERE '')) = Inl e"
    using that sd by (simp add: appendWhere_steps bindE_def)
  have all: "appendWhere X fmter q b =
          (if wheres (whereQuery q) = [] \<and> \<not> Has (flags q) wherePKFlag then Inr b
           else
             bindE (if wheres (whereQuery q) \<noteq> []
                    then priv_appendWhere X fmter (b @ '' WHERE '') (wheres (whereQuery q))
                    else Inr (b @ '' WHERE ''))
               (\<lambda>b1. if Has (flags q) wherePKFlag
                     then appendWherePK X fmter q
                            (if length b1 > length (b @ '' WHERE '') then b1 @ '' AND '' else b1)
                     else Inr b1))"
    if "Has (flags q) allWithDeletedFlag"
    using that sd by (simp add: appendWhere_steps bindE_def split: sum.splits)
  show ?thesis using sd gen dflt off fails all by blast
qed

theorem soft_delete_default_witness:
  "appendWhere sample_extern (sample_fmter False)
     (CreateIndex_Model sample_extern NewCreateIndexQuery acme_doc) ''SELECT * FROM docs''
     = Inr ''SELECT * FROM docs WHERE t.deleted_at IS NULL'' \<and>
   appendWhere sample_extern (sample_fmter False)
     (whereDeleted (CreateIndex_Where (CreateIndex_Model sample_extern NewCreateIndexQuery acme_doc)
        ''a = 1'' None)) ''SELECT * FROM docs''
     = Inr ''SELECT * FROM docs WHERE (a = 1) AND t.deleted_at IS NOT NULL'' \<and>
   appendWhere sample_extern (sample_fmter False)
     (whereAllWithDeleted (CreateIndex_Model sample_extern NewCreateIndexQuery acme_doc))
     ''SELECT * FROM docs''
     = Inr ''SELECT * FROM docs'' \<and>
   appendWhere sample_extern (sample_fmter False)
     (CreateIndex_Where (CreateIndex_Model sample_extern NewCreateIndexQuery acme_doc)
        ''a = 1'' None) ''SELECT * FROM docs''
     = Inr ''SELECT * FROM docs WHERE (a = 1) AND t.deleted_at IS NULL'' \<and>
   appendWhere sample_extern (sample_fmter False)
     (whereAllWithDeleted (CreateIndex_Where
        (CreateIndex_Model sample_extern NewCreateIndexQuery acme_doc) ''a = 1'' None))
     ''SELECT * FROM docs''
     = Inr ''SELECT * FROM docs WHERE (a = 1)''"
proof -
  let ?X = sample_extern and ?f = "sample_fmter False"
  let ?q0 = "CreateIndex_Model sample_extern NewCreateIndexQuery acme_doc"
  let ?q1 = "whereDeleted (CreateIndex_Where ?q0 ''a = 1'' None)"
  let ?q2 = "whereAllWithDeleted ?q0"
  let ?b = "''SELECT * FROM docs''"
  have q0: "?q0 = NewCreateIndexQuery\<lparr>model := Some (IsTableModel (structTableModel docs_table acme_doc)),
      tableModel := Some (structTableModel docs_table acme_doc), table := Some docs_table\<rparr>"
    by (simp add: CreateIndex_Model_def setTableModel_def sample_extern_def acme_doc_def)
  have sdf: "SoftDeleteField docs_table = Some deleted_at_field" by (simp add: docs_table_def)
  have n: "flags NewCreateIndexQuery = 0" "wheres (whereQuery NewCreateIndexQuery) = []"
    by (simp_all add: NewCreateIndexQuery_def)
  have t0: "table ?q0 = Some docs_table" "table_bound ?q0" "flags ?q0 = 0"
    "wheres (whereQuery ?q0) = []"
    by (simp_all add: q0 table_bound_def n)
  have c0: "checkSoftDelete ?q0 = None"
    by (simp add: q0 checkSoftDelete_def sdf)
  have c1: "checkSoftDelete (CreateIndex_Where ?q0 ''a = 1'' None) = None"
    by (simp add: q0 CreateIndex_Where_def checkSoftDelete_def sdf)
  have q1: "?q1 = (CreateIndex_Where ?q0 ''a = 1'' None)
      \<lparr>flags := Remove (Set_flag 0 deletedFlag) allWithDeletedFlag\<rparr>"
    by (simp add: whereDeleted_ok [OF c1]) (simp add: CreateIndex_Where_def t0)
  have q2: "?q2 = ?q0\<lparr>flags := Remove (Set_flag 0 allWithDeletedFlag) deletedFlag\<rparr>"
    by (simp add: whereAllWithDeleted_ok [OF c0] t0)
  have t1: "table ?q1 = Some docs_table" "table_bound ?q1"
    "wheres (whereQuery ?q1) = [SafeQueryWithSep ''a = 1'' None '' AND '']"
    unfolding q1
    by (simp_all add: CreateIndex_Where_def addWhere_def t0 table_bound_def) (simp add: q0)
  have f1: "Has (flags ?q1) deletedFlag" "\<not> Has (flags ?q1) allWithDeletedFlag"
    "\<not> Has (flags ?q1) wherePKFlag"
    unfolding q1 by (simp_all add: flag_bits)
  have t2: "table ?q2 = Some docs_table" "table_bound ?q2" "wheres (whereQuery ?q2) = []"
    unfolding q2 by (simp_all add: t0 table_bound_def) (simp add: q0)
  have f2: "Has (flags ?q2) allWithDeletedFlag" "\<not> Has (flags ?q2) wherePKFlag"
    unfolding q2 by (simp_all add: flag_bits)
  have w1: "(if wheres (whereQuery ?q1) \<noteq> []
       then priv_appendWhere ?X ?f (?b @ '' WHERE '') (wheres (whereQuery ?q1))
       else Inr (?b @ '' WHERE '')) = Inr ''SELECT * FROM docs WHERE (a = 1)''"
    by (simp only: t1(3))
      (simp add: priv_appendWhere_def appendWhere_body_def SafeQueryWithSep_def appendQ_def
        sample_extern_def QueryWithArgs.truncate_def)
  have al: "Alias docs_table = ''t''" "Field.SQLName deleted_at_field = ''deleted_at''"
    by (simp_all add: docs_table_def deleted_at_field_def)
  have A: "appendWhere ?X ?f ?q0 ?b = Inr ''SELECT * FROM docs WHERE t.deleted_at IS NULL''"
    using soft_delete_default [OF t0(1) sdf t0(2), of ?X ?f ?b] t0(3,4) al by simp
  have B: "appendWhere ?X ?f ?q1 ?b = Inr ''SELECT * FROM docs WHERE (a = 1) AND t.deleted_at IS NOT NULL''"
    using soft_delete_default [OF t1(1) sdf t1(2), of ?X ?f ?b "''SELECT * FROM docs WHERE (a = 1)''"]
      w1 f1 al
    by (simp add: Let_def)
  have C: "appendWhere ?X ?f ?q2 ?b = Inr ?b"
    using soft_delete_default [OF t2(1) sdf t2(2), of ?X ?f ?b] f2 t2(3) by simp
  let ?q3 = "CreateIndex_Where ?q0 ''a = 1'' None"
  let ?q4 = "whereAllWithDeleted ?q3"
  have t3: "table ?q3 = Some docs_table" "table_bound ?q3"
    "wheres (whereQuery ?q3) = [SafeQueryWithSep ''a = 1'' None '' AND '']" "flags ?q3 = 0"
    by (simp_all add: CreateIndex_Where_def addWhere_def t0 table_bound_def) (simp add: q0)
  have q4: "?q4 = ?q3\<lparr>flags := Remove (Set_flag 0 allWithDeletedFlag) deletedFlag\<rparr>"
    by (simp add: whereAllWithDeleted_ok [OF c1] t3)
  have t4: "table ?q4 = Some docs_table" "table_bound ?q4"
    "wheres (whereQuery ?q4) = [SafeQueryWithSep ''a = 1'' None '' AND '']"
    unfolding q4
    by (simp_all add: CreateIndex_Where_def addWhere_def t0 table_bound_def) (simp add: q0)
  have f3: "\<not> Has (flags ?q3) deletedFlag" "\<not> Has (flags ?q3) allWithDeletedFlag"
    "\<not> Has (flags ?q3) wherePKFlag"
    by (simp_all only: t3(4)) (simp_all add: flag_bits)
  have f4: "Has (flags ?q4) allWithDeletedFlag" "\<not> Has (flags ?q4) wherePKFlag"
    unfolding q4 by (simp_all add: flag_bits)
  have w3: "(if wheres (whereQuery ?q3) \<noteq> []
       then priv_appendWhere ?X ?f (?b @ '' WHERE '') (wheres (whereQuery ?q3))
       else Inr (?b @ '' WHERE '')) = Inr ''SELECT * FROM docs WHERE (a = 1)''"
    by (simp only: t3(3))
      (simp add: priv_appendWhere_def appendWhere_body_def SafeQueryWithSep_def appendQ_def
        sample_extern_def QueryWithArgs.truncate_def)
  have w4: "(if wheres (whereQuery ?q4) \<noteq> []
       then priv_appendWhere ?X ?f (?b @ '' WHERE '') (wheres (whereQuery ?q4))
       else Inr (?b @ '' WHERE '')) = Inr ''SELECT * FROM docs WHERE (a = 1)''"
    by (simp only: t4(3))
      (simp add: priv_appendWhere_def appendWhere_body_def SafeQueryWithSep_def appendQ_def
        sample_extern_def QueryWithArgs.truncate_def)
  have n4: "wheres (whereQuery ?q4) \<noteq> []" by (simp only: t4(3)) simp
  have D: "appendWhere ?X ?f ?q3 ?b = Inr ''SELECT * FROM docs WHERE (a = 1) AND t.deleted_at IS NULL''"
    using soft_delete_default [OF t3(1) sdf t3(2), of ?X ?f ?b "''SELECT * FROM docs WHERE (a = 1)''"]
      w3 f3 al
    by (simp add: Let_def)
  have E: "appendWhere ?X ?f ?q4 ?b = Inr ''SELECT * FROM docs WHERE (a = 1)''"
    using soft_delete_default [OF t4(1) sdf t4(2), of ?X ?f ?b] f4 n4 w4
    by (simp add: bindE_def)
  show ?thesis by (rule conjI [OF A conjI [OF B conjI [OF C conjI [OF D E]]]])
qed

end
